theory Spec2Isabelle
  imports Complex_Main
begin

text \<open>
  A shallow embedding of \<open>MetaMaskService\<close>, the wallet session service of
  metamask-angular-app, in its two variants: the reactive service, which holds the
  account, the network and the authenticated flag and publishes their changes, and the
  older non-reactive one. An asynchronous operation is a function from the replies of the
  wallet and the backend, and from the state of the service, to its outcome and the new
  state; every effect on the outside world is appended to a trace.
\<close>

section \<open>The reactive wallet service (src/app/metamask/metamask.service.ts)\<close>

subsection \<open>Values exchanged with the wallet and the backend\<close>

text \<open>
  A failed asynchronous operation is a value. \<open>Error m\<close> is an \<open>Error\<close> object created by
  the service itself with message \<open>m\<close>; \<open>Thrown m\<close> is a bare string thrown by the older
  service; \<open>TypeError\<close> is the engine's error for reading a property of \<open>null\<close> or
  \<open>undefined\<close>; \<open>Rejected r\<close> is whatever the wallet provider or the HTTP client rejected
  with, identified by its text \<open>r\<close>.
\<close>

datatype failure = Error string | Thrown string | TypeError | Rejected string

text \<open>An untyped JSON value, as found in a field of a backend response typed \<open>any\<close>.\<close>

datatype json = JNull | JBool bool | JNum int | JStr string

text \<open>\<open>ethers.providers.Network\<close>: the fields the service reads.\<close>

record network =
  name :: string
  chainId :: int

text \<open>\<open>interface Nonce { nonce?: string }\<close>; \<open>None\<close> is the absent field.\<close>

record Nonce =
  nonce :: "string option"

text \<open>The body of the verify endpoint (typed \<open>any\<close>); \<open>None\<close> is an absent \<open>valid\<close>.\<close>

record verify_response =
  valid :: "json option"

text \<open>The object a successful \<open>signer.sendTransaction\<close> resolves to: only \<open>hash\<close> is read.\<close>

record transaction_response =
  hash :: string

subsection \<open>Observable effects\<close>

text \<open>
  Everything the service does to the outside world is recorded, in order: console output,
  values pushed into the three \<open>BehaviorSubject\<close>s, requests to the wallet provider and
  its signer, listener registrations and HTTP requests. Console output is recorded by its
  text; a logged object is left out of it.
\<close>

datatype effect =
    ConsoleLog string
  | ConsoleWarn string
  | NetworkNext "network option"
  | IsAuthenticatedNext bool
  | AccountNext "string option"
  | EthereumOn string
  | ProviderListAccounts
  | ProviderGetNetwork
  | ProviderSend string
  | ProviderGetSigner
  | ProviderGetTransactionReceipt string
  | SignerSignMessage string
  | SignerGetAddress
  | SignerSendTransaction string int
  | HttpGet string "(string \<times> string) list"

fun is_wallet_call :: "effect \<Rightarrow> bool" where
  "is_wallet_call (EthereumOn _) = True"
| "is_wallet_call ProviderListAccounts = True"
| "is_wallet_call ProviderGetNetwork = True"
| "is_wallet_call (ProviderSend _) = True"
| "is_wallet_call ProviderGetSigner = True"
| "is_wallet_call (ProviderGetTransactionReceipt _) = True"
| "is_wallet_call (SignerSignMessage _) = True"
| "is_wallet_call SignerGetAddress = True"
| "is_wallet_call (SignerSendTransaction _ _) = True"
| "is_wallet_call _ = False"

fun is_network_call :: "effect \<Rightarrow> bool" where
  "is_network_call (HttpGet _ _) = True"
| "is_network_call _ = False"

subsection \<open>The service object\<close>

text \<open>
  The fields of \<open>MetaMaskService\<close>. \<open>provider\<close> tells whether \<open>this.provider\<close> is defined;
  \<open>network\<close>, \<open>isAuthenticated\<close> and \<open>account\<close> are the private fields \<open>_network\<close>,
  \<open>_isAuthenticated\<close> and \<open>_account\<close> (\<open>None\<close> is \<open>undefined\<close>); \<open>trace\<close> is the list of
  effects so far, oldest first.
\<close>

record service =
  apiURL :: string
  provider :: bool
  network :: "network option"
  isAuthenticated :: bool
  account :: "string option"
  trace :: "effect list"

definition emit :: "effect \<Rightarrow> service \<Rightarrow> service" where
  "emit e s = s\<lparr>trace := trace s @ [e]\<rparr>"

text \<open>The three setters: store the value, then push it into the subject.\<close>

definition set_network :: "network option \<Rightarrow> service \<Rightarrow> service" where
  "set_network n s = emit (NetworkNext n) (s\<lparr>network := n\<rparr>)"

definition set_account :: "string option \<Rightarrow> service \<Rightarrow> service" where
  "set_account a s = emit (AccountNext a) (s\<lparr>account := a\<rparr>)"

definition set_isAuthenticated :: "bool \<Rightarrow> service \<Rightarrow> service" where
  "set_isAuthenticated b s = emit (IsAuthenticatedNext b) (s\<lparr>isAuthenticated := b\<rparr>)"

definition isConnected :: "service \<Rightarrow> bool" where
  "isConnected s = (account s \<noteq> None)"

definition getBackendUrl :: "service \<Rightarrow> string \<Rightarrow> string" where
  "getBackendUrl s path = apiURL s @ path"

text \<open>
  The constructor, given \<open>environment.easyRestURL\<close> and whether \<open>window.ethereum\<close> is
  defined. The replies to \<open>listAccounts\<close> and \<open>getNetwork\<close> arrive later, as events.
\<close>

definition new_MetaMaskService :: "string \<Rightarrow> bool \<Rightarrow> service" where
  "new_MetaMaskService url isEthereumInstalled =
     (let s = \<lparr>apiURL = url, provider = False, network = None, isAuthenticated = False,
                account = None, trace = []\<rparr>
      in if isEthereumInstalled
         then emit ProviderGetNetwork (emit (EthereumOn ''chainChanged'')
                (emit ProviderListAccounts (emit (EthereumOn ''accountsChanged'')
                  (s\<lparr>provider := True\<rparr>))))
         else s)"

subsection \<open>Wallet events\<close>

text \<open>
  \<open>onAccountsChanged\<close>. The argument is \<open>None\<close> for \<open>undefined\<close>, which the handler tests
  for although its parameter is typed \<open>string[]\<close>. The console line names the handler
  and its argument: an array is an object and is left out, \<open>undefined\<close> is printed.
\<close>

definition onAccountsChanged :: "string list option \<Rightarrow> service \<Rightarrow> service" where
  "onAccountsChanged accounts s =
     (let s1 = emit (ConsoleLog (''onAccountsChanged''
                                  @ (case accounts of None \<Rightarrow> '' undefined'' | Some _ \<Rightarrow> []))) s;
          s2 = (case accounts of
                  None \<Rightarrow> set_account None s1
                | Some [] \<Rightarrow> set_account None s1
                | Some (a # rest) \<Rightarrow>
                    set_account (Some a)
                      (if length (a # rest) > 1
                       then emit (ConsoleWarn ''More than one account connected'') s1
                       else s1))
      in set_isAuthenticated False s2)"

text \<open>
  \<open>onChainChanged\<close> logs its name and the chain id it was given, and asks the provider
  for the network; nothing else happens in the handler's own turn. \<open>onChainChanged_then\<close>
  is the callback that runs when the provider answers.
\<close>

definition onChainChanged :: "string \<Rightarrow> service \<Rightarrow> service" where
  "onChainChanged chainId_hex s =
     (let s1 = emit (ConsoleLog (''onChainChanged '' @ chainId_hex)) s
      in if provider s1 then emit ProviderGetNetwork s1 else s1)"

definition onChainChanged_then :: "network \<Rightarrow> service \<Rightarrow> service" where
  "onChainChanged_then n s = set_network (Some n) s"

datatype event =
    AccountsChanged "string list option"
  | ChainChanged string
  | NetworkResolved network

fun handle :: "event \<Rightarrow> service \<Rightarrow> service" where
  "handle (AccountsChanged accounts) s = onAccountsChanged accounts s"
| "handle (ChainChanged c) s = onChainChanged c s"
| "handle (NetworkResolved n) s = onChainChanged_then n s"

text \<open>The events delivered, in order, while an operation is suspended at an \<open>await\<close>.\<close>

definition deliver :: "event list \<Rightarrow> service \<Rightarrow> service" where
  "deliver evs s = fold handle evs s"

subsection \<open>Logout and the confirmation lookups\<close>

definition logout :: "service \<Rightarrow> (failure + unit) \<times> service" where
  "logout s = (Inr (), set_isAuthenticated False s)"

text \<open>A transaction receipt is opaque; \<open>None\<close> is \<open>null\<close> or \<open>undefined\<close>.\<close>

typedecl receipt

text \<open>
  \<open>checkTransactionConfirmation\<close>: one lookup through the provider, whose answer is
  returned as it is; without a provider the result is \<open>undefined\<close>.
\<close>

definition checkTransactionConfirmation ::
  "(failure + receipt option) \<Rightarrow> event list \<Rightarrow> string \<Rightarrow> service
     \<Rightarrow> (failure + receipt option) \<times> service" where
  "checkTransactionConfirmation reply evs txHash s =
     (if provider s
      then (reply, deliver evs (emit (ProviderGetTransactionReceipt txHash) s))
      else (Inr None, s))"

text \<open>\<open>checkTransactionConfirmationFromBackend\<close> returns the constant \<open>null\<close>.\<close>

definition checkTransactionConfirmationFromBackend ::
  "string \<Rightarrow> service \<Rightarrow> (failure + receipt option) \<times> service" where
  "checkTransactionConfirmationFromBackend txhash s = (Inr None, s)"

subsection \<open>Decimal amounts\<close>

text \<open>Decimal digits, as the characters \<open>0\<close> to \<open>9\<close>, and their values.\<close>

definition is_digit :: "char \<Rightarrow> bool" where
  "is_digit c = (48 \<le> (of_char c :: nat) \<and> (of_char c :: nat) \<le> 57)"

definition digit_val :: "char \<Rightarrow> nat" where
  "digit_val c = of_char c - 48"

definition digit_char :: "nat \<Rightarrow> char" where
  "digit_char d = char_of (48 + d)"

text \<open>The number a string of decimal digits denotes, and the decimal digits of a number.\<close>

definition nat_of_digits :: "string \<Rightarrow> nat" where
  "nat_of_digits ds = foldl (\<lambda>n c. 10 * n + digit_val c) 0 ds"

fun digits_of_nat :: "nat \<Rightarrow> string" where
  "digits_of_nat n =
     (if n < 10 then [digit_char n] else digits_of_nat (n div 10) @ [digit_char (n mod 10)])"

definition strip_trailing_zeros :: "string \<Rightarrow> string" where
  "strip_trailing_zeros ds = rev (dropWhile (\<lambda>c. c = CHR ''0'') (rev ds))"

definition not_dot :: "char \<Rightarrow> bool" where
  "not_dot c = (c \<noteq> CHR ''.'')"

text \<open>The chain's fixed decimal exponent: one ether is \<open>10^18\<close> wei.\<close>

definition decimals :: nat where
  "decimals = 18"

definition is_negative :: "string \<Rightarrow> bool" where
  "is_negative s = (case s of [] \<Rightarrow> False | c # _ \<Rightarrow> c = CHR ''-'')"

text \<open>
  Modelled from the spec: the conversion of the part of the amount after its sign, inside
  \<open>ethers.utils.parseEther\<close>, a function of the ethers library whose source is not part
  of the repository. The spec (4.4, step 2) has the amount parsed as a fixed-point decimal
  in the display unit and converted to the integer base unit with the fixed exponent 18,
  by scaled-integer arithmetic: the whole part times \<open>10^18\<close> plus the fraction padded
  with zeros to 18 digits. A string that is not such a decimal, or whose fraction has
  more than 18 significant digits, is an error.
\<close>

definition parse_unsigned :: "string \<Rightarrow> failure + int" where
  "parse_unsigned v =
     (if v = [] \<or> \<not> list_all (\<lambda>c. is_digit c \<or> c = CHR ''.'') v
      then Inl (Error ''invalid decimal value'')
      else if v = ''.'' then Inl (Error ''missing value'')
      else let whole0 = takeWhile not_dot v;
               rest = tl (dropWhile not_dot v)
           in if \<not> list_all not_dot rest then Inl (Error ''too many decimal points'')
              else let whole = (if whole0 = [] then ''0'' else whole0);
                       fraction = strip_trailing_zeros (if rest = [] then ''0'' else rest)
                   in if length fraction > decimals
                      then Inl (Error ''fractional component exceeds decimals'')
                      else let padded = fraction @ replicate (decimals - length fraction) CHR ''0''
                           in Inr (int (nat_of_digits whole) * 10 ^ decimals
                                   + int (nat_of_digits padded)))"

text \<open>
  Modelled from the spec: \<open>ethers.utils.parseEther\<close>, the library function that
  \<open>requestSendTransaction\<close> calls to convert the amount from ether to wei (spec 4.4,
  step 2). An optional leading \<open>-\<close> negates the result.
\<close>

definition parseEther :: "string \<Rightarrow> failure + int" where
  "parseEther ether =
     (case parse_unsigned (if is_negative ether then tl ether else ether) of
        Inl e \<Rightarrow> Inl e
      | Inr wei \<Rightarrow> Inr (if is_negative ether then - wei else wei))"

text \<open>
  Modelled from the spec: the conversion back from a non-negative number of base units to
  a display-unit decimal string. No such conversion is called anywhere in the repository
  (the library's is \<open>ethers.utils.formatEther\<close>). The spec (8) has \<open>1500000000000000000\<close>
  base units map back to \<open>1.5\<close>: the quotient by \<open>10^18\<close>, a point, and the remainder
  written with 18 digits, its trailing zeros dropped down to one digit at least.
\<close>

definition format_unsigned :: "nat \<Rightarrow> string" where
  "format_unsigned v =
     (let f = digits_of_nat (v mod 10 ^ decimals);
          padded = replicate (decimals - length f) CHR ''0'' @ f;
          stripped = strip_trailing_zeros padded;
          fraction = (if stripped = [] then ''0'' else stripped);
          whole = digits_of_nat (v div 10 ^ decimals)
      in whole @ CHR ''.'' # fraction)"

text \<open>
  Modelled from the spec: the conversion back from base units to a decimal string, for
  any integer: a negative amount is written with a leading \<open>-\<close>.
\<close>

definition formatEther :: "int \<Rightarrow> string" where
  "formatEther wei = (if wei < 0 then ''-'' else []) @ format_unsigned (nat \<bar>wei\<bar>)"

text \<open>
  The mathematical value of a decimal string \<open>-?digits(.digits)?\<close>, as a rational number;
  a missing whole or fractional part counts as zero.
\<close>

definition unsigned_value :: "string \<Rightarrow> rat" where
  "unsigned_value v =
     (let whole = takeWhile not_dot v;
          fraction = tl (dropWhile not_dot v)
      in of_nat (nat_of_digits whole)
         + of_nat (nat_of_digits fraction) / 10 ^ length fraction)"

definition decimal_value :: "string \<Rightarrow> rat" where
  "decimal_value s = (if is_negative s then - unsigned_value (tl s) else unsigned_value s)"

text \<open>A well-formed decimal string, and the number of its fractional digits.\<close>

definition is_unsigned_decimal :: "string \<Rightarrow> bool" where
  "is_unsigned_decimal v =
     (v \<noteq> [] \<and> v \<noteq> ''.'' \<and> list_all is_digit (takeWhile not_dot v)
      \<and> list_all is_digit (tl (dropWhile not_dot v)))"

definition is_decimal :: "string \<Rightarrow> bool" where
  "is_decimal s = is_unsigned_decimal (if is_negative s then tl s else s)"

definition fraction_digits :: "string \<Rightarrow> nat" where
  "fraction_digits s = length (tl (dropWhile not_dot s))"

subsection \<open>The login flow\<close>

text \<open>
  What the outside world answers during one run of an operation: the reply to each
  request (\<open>Inl\<close> is a rejection), and the wallet events delivered while the operation
  is suspended at its \<open>k\<close>-th request. A reply of \<open>None\<close> is a body of \<open>null\<close>, or a
  promise resolved with \<open>undefined\<close>.
\<close>

record world =
  requestAccounts_reply :: "failure + unit"
  generateNonce_reply :: "failure + Nonce option"
  signMessage_reply :: "failure + string option"
  getAddress_reply :: "failure + string option"
  verifyMessage_reply :: "failure + verify_response option"
  sendTransaction_reply :: "failure + transaction_response option"
  events :: "nat \<Rightarrow> event list"

datatype signer = Signer

definition show_undefined :: "string option \<Rightarrow> string" where
  "show_undefined x = (case x of None \<Rightarrow> ''undefined'' | Some v \<Rightarrow> v)"

definition requestAccount ::
  "(failure + unit) \<Rightarrow> event list \<Rightarrow> service \<Rightarrow> (failure + unit) \<times> service" where
  "requestAccount reply evs s =
     (if provider s
      then (reply, deliver evs (emit (ProviderSend ''eth_requestAccounts'') s))
      else (Inr (), s))"

definition getSigner ::
  "(failure + unit) \<Rightarrow> event list \<Rightarrow> service \<Rightarrow> (failure + signer option) \<times> service" where
  "getSigner reply evs s =
     (case requestAccount reply evs s of
        (Inl e, s1) \<Rightarrow> (Inl e, s1)
      | (Inr _, s1) \<Rightarrow>
          (if provider s1 then (Inr (Some Signer), emit ProviderGetSigner s1)
           else (Inr None, s1)))"

definition generateNonce ::
  "(failure + Nonce option) \<Rightarrow> event list \<Rightarrow> service
     \<Rightarrow> (failure + Nonce option) \<times> service" where
  "generateNonce reply evs s =
     (reply, deliver evs (emit (HttpGet (getBackendUrl s ''/metamask/generatenonce'') []) s))"

definition verifyMessage ::
  "string \<Rightarrow> string \<Rightarrow> string \<Rightarrow> (failure + verify_response option) \<Rightarrow> event list
     \<Rightarrow> service \<Rightarrow> (failure + verify_response option) \<times> service" where
  "verifyMessage message address signature reply evs s =
     (reply,
      deliver evs
        (emit (HttpGet (getBackendUrl s ''/metamask/verify/message'')
                 [(''message'', message), (''address'', address), (''signature'', signature)])
           s))"

text \<open>
  \<open>signer?.signMessage(nonce)\<close> and \<open>signer?.getAddress()\<close>: nothing is called on an
  undefined signer, and the value is \<open>undefined\<close>.
\<close>

definition signer_signMessage ::
  "signer option \<Rightarrow> string \<Rightarrow> (failure + string option) \<Rightarrow> event list \<Rightarrow> service
     \<Rightarrow> (failure + string option) \<times> service" where
  "signer_signMessage sg message reply evs s =
     (case sg of
        None \<Rightarrow> (Inr None, s)
      | Some _ \<Rightarrow> (reply, deliver evs (emit (SignerSignMessage message) s)))"

definition signer_getAddress ::
  "signer option \<Rightarrow> (failure + string option) \<Rightarrow> event list \<Rightarrow> service
     \<Rightarrow> (failure + string option) \<times> service" where
  "signer_getAddress sg reply evs s =
     (case sg of
        None \<Rightarrow> (Inr None, s)
      | Some _ \<Rightarrow> (reply, deliver evs (emit SignerGetAddress s)))"

text \<open>The last step of \<open>requestLogin\<close>: the test of the verify response.\<close>

definition login_verified ::
  "verify_response option \<Rightarrow> service \<Rightarrow> (failure + string option) \<times> service" where
  "login_verified res s =
     (case res of
        None \<Rightarrow> (Inl TypeError, s)
      | Some r \<Rightarrow>
          (if valid r = Some (JBool True)
           then (let s1 = emit (ConsoleLog (''Authenticated '' @ show_undefined (account s))) s;
                     s2 = set_isAuthenticated True s1
                 in (Inr (account s2), s2))
           else (Inl (Error ''Signature invalid''), s)))"

text \<open>The steps of \<open>requestLogin\<close> once a nonce is at hand.\<close>

definition login_signed ::
  "world \<Rightarrow> signer option \<Rightarrow> string \<Rightarrow> service \<Rightarrow> (failure + string option) \<times> service" where
  "login_signed w sg n s =
     (case signer_signMessage sg n (signMessage_reply w) (events w 2) s of
        (Inl e, s1) \<Rightarrow> (Inl e, s1)
      | (Inr None, s1) \<Rightarrow> (Inl (Error ''Could not sign message!''), s1)
      | (Inr (Some signature), s1) \<Rightarrow>
          (case signer_getAddress sg (getAddress_reply w) (events w 3) s1 of
             (Inl e, s2) \<Rightarrow> (Inl e, s2)
           | (Inr None, s2) \<Rightarrow> (Inl (Error ''Could not get address!''), s2)
           | (Inr (Some address), s2) \<Rightarrow>
               (case verifyMessage n address signature (verifyMessage_reply w) (events w 4) s2 of
                  (Inl e, s3) \<Rightarrow> (Inl e, s3)
                | (Inr res, s3) \<Rightarrow> login_verified res s3)))"

definition requestLogin :: "world \<Rightarrow> service \<Rightarrow> (failure + string option) \<times> service" where
  "requestLogin w s =
     (case getSigner (requestAccounts_reply w) (events w 0) (set_isAuthenticated False s) of
        (Inl e, s1) \<Rightarrow> (Inl e, s1)
      | (Inr sg, s1) \<Rightarrow>
          (case generateNonce (generateNonce_reply w) (events w 1) s1 of
             (Inl e, s2) \<Rightarrow> (Inl e, s2)
           | (Inr None, s2) \<Rightarrow> (Inl TypeError, s2)
           | (Inr (Some res), s2) \<Rightarrow>
               (let s3 = emit (ConsoleLog (''Message to be be signed is:  ''
                                            @ show_undefined (nonce res))) s2
                in case nonce res of
                     None \<Rightarrow> (Inl (Error ''Could not generate nonce!''), s3)
                   | Some n \<Rightarrow> login_signed w sg n s3)))"

subsection \<open>Transaction submission\<close>

text \<open>
  \<open>requestSendTransaction\<close>. The amount sent is recorded as the integer number of wei;
  the source passes its \<open>toHexString()\<close> rendering. With an undefined signer the argument
  of \<open>signer?.sendTransaction(...)\<close> is not evaluated.
\<close>

definition requestSendTransaction ::
  "world \<Rightarrow> bool \<Rightarrow> string \<Rightarrow> string \<Rightarrow> service \<Rightarrow> (failure + string) \<times> service" where
  "requestSendTransaction w isProd toAdress amountETH s =
     (let networkVersion = map_option chainId (network s)
      in if isProd \<and> networkVersion \<noteq> Some 1
         then (Inl (Error ''Network should be Ethereum mainnet''), s)
         else if \<not> isProd \<and> networkVersion = Some 1
         then (Inl (Error ''Network should be a testnet''), s)
         else (case getSigner (requestAccounts_reply w) (events w 0) s of
                 (Inl e, s1) \<Rightarrow> (Inl e, s1)
               | (Inr None, s1) \<Rightarrow> (Inl (Error ''Could not send transaction''), s1)
               | (Inr (Some _), s1) \<Rightarrow>
                   (case parseEther amountETH of
                      Inl e \<Rightarrow> (Inl e, s1)
                    | Inr wei \<Rightarrow>
                        (case (sendTransaction_reply w,
                               deliver (events w 1)
                                 (emit (SignerSendTransaction toAdress wei) s1)) of
                           (Inl e, s2) \<Rightarrow> (Inl e, s2)
                         | (Inr None, s2) \<Rightarrow> (Inl (Error ''Could not send transaction''), s2)
                         | (Inr (Some tx), s2) \<Rightarrow> (Inr (hash tx), s2)))))"

subsection \<open>Sessions\<close>

text \<open>
  A session is a sequence of wallet events and of calls made by the application, each
  run to its end before the next.
\<close>

datatype call =
    Event event
  | Login world
  | Logout
  | SendTransaction world bool string string

fun step :: "call \<Rightarrow> service \<Rightarrow> service" where
  "step (Event e) s = handle e s"
| "step (Login w) s = snd (requestLogin w s)"
| "step Logout s = snd (logout s)"
| "step (SendTransaction w isProd toAdress amountETH) s =
     snd (requestSendTransaction w isProd toAdress amountETH s)"

definition run :: "call list \<Rightarrow> service \<Rightarrow> service" where
  "run calls s = fold step calls s"

text \<open>No login of the session, run from state \<open>s\<close>, completes successfully.\<close>

fun no_successful_login :: "call list \<Rightarrow> service \<Rightarrow> bool" where
  "no_successful_login [] s = True"
| "no_successful_login (Login w # calls) s =
     (isl (fst (requestLogin w s)) \<and> no_successful_login calls (step (Login w) s))"
| "no_successful_login (c # calls) s = no_successful_login calls (step c s)"

text \<open>The effects added between an earlier state and a later one.\<close>

definition since :: "service \<Rightarrow> service \<Rightarrow> effect list" where
  "since s s' = drop (length (trace s)) (trace s')"

text \<open>The effects added by the handlers of the events delivered in state \<open>s\<close>.\<close>

definition delivered :: "event list \<Rightarrow> service \<Rightarrow> effect list" where
  "delivered evs s = drop (length (trace s)) (trace (deliver evs s))"

text \<open>The requests an operation sends to the wallet or the backend on its own behalf.\<close>

fun is_request :: "effect \<Rightarrow> bool" where
  "is_request (ProviderSend _) = True"
| "is_request (SignerSignMessage _) = True"
| "is_request SignerGetAddress = True"
| "is_request (SignerSendTransaction _ _) = True"
| "is_request (HttpGet _ _) = True"
| "is_request _ = False"

definition requests :: "service \<Rightarrow> effect list" where
  "requests s = filter is_request (trace s)"

text \<open>What the two event handlers can add to the trace.\<close>

fun handler_effect :: "effect \<Rightarrow> bool" where
  "handler_effect (ConsoleLog _) = True"
| "handler_effect (ConsoleWarn _) = True"
| "handler_effect (AccountNext _) = True"
| "handler_effect (NetworkNext _) = True"
| "handler_effect (IsAuthenticatedNext b) = (\<not> b)"
| "handler_effect ProviderGetNetwork = True"
| "handler_effect _ = False"

section \<open>The non-reactive variant of the service (src/unnamed/part_000)\<close>

subsection \<open>JavaScript numbers\<close>

text \<open>
  A \<open>number\<close> is an IEEE 754 binary64 value: \<open>Finite sg m e\<close> is \<open>m * 2^e\<close>, negated when
  \<open>sg\<close> holds, with \<open>m < 2^53\<close> and \<open>-1074 \<le> e \<le> 971\<close>.
\<close>

datatype js_number = Finite bool nat int | Infinity bool | NaN

fun bitlen :: "nat \<Rightarrow> nat" where
  "bitlen n = (if n = 0 then 0 else Suc (bitlen (n div 2)))"

text \<open>
  The binary64 value nearest to \<open>m * 2^e\<close>, ties to the even significand: the rounding
  every arithmetic operation on numbers ends with.
\<close>

definition round_binary64 :: "bool \<Rightarrow> nat \<Rightarrow> int \<Rightarrow> js_number" where
  "round_binary64 sg m e =
     (if m = 0 then Finite sg 0 0
      else let t = max (e + int (bitlen m) - 53) (- 1074)
           in if t \<le> e
              then (if e + int (bitlen m) > 1024 then Infinity sg else Finite sg m e)
              else let k = nat (t - e);
                       q = m div 2 ^ k;
                       r = m mod 2 ^ k;
                       half = 2 ^ (k - 1);
                       q' = (if r > half \<or> (r = half \<and> odd q) then q + 1 else q)
                   in if q' = 0 then Finite sg 0 0
                      else if t + int (bitlen q') > 1024 then Infinity sg
                      else Finite sg q' t)"

text \<open>The operator \<open>*\<close> on numbers.\<close>

fun js_times :: "js_number \<Rightarrow> js_number \<Rightarrow> js_number" where
  "js_times NaN y = NaN"
| "js_times x NaN = NaN"
| "js_times (Infinity a) (Infinity b) = Infinity (a \<noteq> b)"
| "js_times (Infinity a) (Finite b m e) = (if m = 0 then NaN else Infinity (a \<noteq> b))"
| "js_times (Finite a m e) (Infinity b) = (if m = 0 then NaN else Infinity (a \<noteq> b))"
| "js_times (Finite a m1 e1) (Finite b m2 e2) = round_binary64 (a \<noteq> b) (m1 * m2) (e1 + e2)"

text \<open>\<open>Math.pow(10, 18)\<close>: the number \<open>10^18 = 5^18 * 2^18\<close>, which binary64 holds exactly.\<close>

definition Math_pow_10_18 :: js_number where
  "Math_pow_10_18 = Finite False (5 ^ 18) 18"

text \<open>The rational value of a finite number.\<close>

definition number_value :: "js_number \<Rightarrow> rat option" where
  "number_value x =
     (case x of
        Finite sg m e \<Rightarrow>
          Some ((if sg then - 1 else 1) * of_nat m
                * (if e \<ge> 0 then 2 ^ nat e else 1 / 2 ^ nat (- e)))
      | _ \<Rightarrow> None)"

subsection \<open>Signing and sending\<close>

text \<open>
  \<open>window.ethereum\<close>, when a wallet is injected. \<open>networkVersion\<close> is the decimal string
  of the network id, held here as the number it denotes (\<open>None\<close>: the wallet reports
  none); the source compares it with the number \<open>1\<close> by \<open>==\<close> and \<open>!=\<close>, which convert
  the string to that number.
\<close>

record ethereum =
  isMetaMask :: bool
  networkVersion :: "nat option"

text \<open>
  The object sent with \<open>eth_sendTransaction\<close>. \<open>tx_value\<close> is the number \<open>amountWEIDec\<close>;
  the source sends its base-16 rendering \<open>toString(16)\<close>.
\<close>

record transactionParameters =
  tx_nonce :: string
  tx_to :: string
  tx_from :: string
  tx_value :: js_number
  tx_data :: string
  tx_chainId :: string

datatype wallet_effect =
    Log string
  | EthereumRequest string "transactionParameters list"
  | Web3SignMessage string
  | Web3GetAddress

text \<open>
  The text of an error concatenated to a string; the engine's message for a \<open>TypeError\<close>
  is left out.
\<close>

fun render :: "failure \<Rightarrow> string" where
  "render (Error m) = ''Error: '' @ m"
| "render (Thrown m) = m"
| "render TypeError = ''TypeError''"
| "render (Rejected r) = r"

text \<open>
  The body of the \<open>try\<close> block of \<open>sendTransaction\<close>: its outcome, and the effects up to
  there. \<open>reply\<close> is the wallet's answer to \<open>eth_sendTransaction\<close>.
\<close>

definition sendTransaction_try ::
  "ethereum option \<Rightarrow> (failure + string) \<Rightarrow> bool \<Rightarrow> string \<Rightarrow> string \<Rightarrow> js_number
     \<Rightarrow> (failure + string option) \<times> wallet_effect list" where
  "sendTransaction_try eth reply isProd fromAddress toAdress amountETH =
     (case eth of
        None \<Rightarrow> (Inl TypeError, [])
      | Some wallet \<Rightarrow>
          (if isProd \<and> networkVersion wallet \<noteq> Some 1
           then (Inl (Thrown ''Network should be Ethereum mainnet''), [])
           else if \<not> isProd \<and> networkVersion wallet = Some 1
           then (Inl (Thrown ''Network should be a testnet''), [])
           else let amountWEIDec = js_times amountETH Math_pow_10_18;
                    transactionParameters =
                      \<lparr>tx_nonce = ''0x00'', tx_to = toAdress, tx_from = fromAddress,
                       tx_value = amountWEIDec,
                       tx_data = ''0x7f7465737432000000000000000000000000000000000000000000000000000000600057'',
                       tx_chainId = ''0x3''\<rparr>;
                    effs = [EthereumRequest ''eth_sendTransaction'' [transactionParameters]]
                in (case reply of
                      Inl err \<Rightarrow> (Inl err, effs)
                    | Inr txHash \<Rightarrow> (Inr (Some txHash), effs))))"

text \<open>
  \<open>sendTransaction\<close>: the \<open>catch\<close> block logs the error and falls off the end of the
  function, which then resolves with \<open>undefined\<close> (\<open>None\<close>).
\<close>

definition sendTransaction ::
  "ethereum option \<Rightarrow> (failure + string) \<Rightarrow> bool \<Rightarrow> string \<Rightarrow> string \<Rightarrow> js_number
     \<Rightarrow> (failure + string option) \<times> wallet_effect list" where
  "sendTransaction eth reply isProd fromAddress toAdress amountETH =
     (case sendTransaction_try eth reply isProd fromAddress toAdress amountETH of
        (Inl err, effs) \<Rightarrow>
          (Inr None, effs @ [Log (''Unable to send transaction: '' @ render err)])
      | (Inr txHash, effs) \<Rightarrow> (Inr txHash, effs))"

text \<open>
  \<open>signMessage\<close>: the replies are the wallet's answers to \<open>eth_requestAccounts\<close>, to
  \<open>signer.signMessage\<close> and to \<open>signer.getAddress\<close>. The result is the pair of the
  signature and the address, or \<open>null\<close> (\<open>None\<close>) from the \<open>catch\<close> block.
\<close>

definition signMessage_try ::
  "ethereum option \<Rightarrow> (failure + unit) \<Rightarrow> (failure + string) \<Rightarrow> (failure + string) \<Rightarrow> string
     \<Rightarrow> (failure + (string \<times> string) option) \<times> wallet_effect list" where
  "signMessage_try eth accounts_reply sign_reply address_reply message =
     (case eth of
        None \<Rightarrow> (Inl TypeError, [])
      | Some wallet \<Rightarrow>
          (case accounts_reply of
             Inl err \<Rightarrow> (Inl err, [EthereumRequest ''eth_requestAccounts'' []])
           | Inr _ \<Rightarrow>
               (case sign_reply of
                  Inl err \<Rightarrow>
                    (Inl err, [EthereumRequest ''eth_requestAccounts'' [], Web3SignMessage message])
                | Inr signature \<Rightarrow>
                    (case address_reply of
                       Inl err \<Rightarrow>
                         (Inl err, [EthereumRequest ''eth_requestAccounts'' [],
                                    Web3SignMessage message, Web3GetAddress])
                     | Inr address \<Rightarrow>
                         (Inr (Some (signature, address)),
                          [EthereumRequest ''eth_requestAccounts'' [],
                           Web3SignMessage message, Web3GetAddress])))))"

definition signMessage ::
  "ethereum option \<Rightarrow> (failure + unit) \<Rightarrow> (failure + string) \<Rightarrow> (failure + string) \<Rightarrow> string
     \<Rightarrow> (failure + (string \<times> string) option) \<times> wallet_effect list" where
  "signMessage eth accounts_reply sign_reply address_reply message =
     (case signMessage_try eth accounts_reply sign_reply address_reply message of
        (Inl err, effs) \<Rightarrow> (Inr None, effs @ [Log (''Unable to sign: '' @ render err)])
      | (Inr res, effs) \<Rightarrow> (Inr res, effs))"

text \<open>\<open>checkTransactionConfirmationFromBackend\<close>, as this variant has it.\<close>

definition checkTransactionConfirmationFromBackend_part000 ::
  "string \<Rightarrow> (failure + receipt option) \<times> wallet_effect list" where
  "checkTransactionConfirmationFromBackend_part000 txhash = (Inr None, [])"

section \<open>Example states and worlds\<close>

text \<open>A world in which every request succeeds and the backend accepts the signature.\<close>

definition world_valid :: world where
  "world_valid =
     \<lparr>requestAccounts_reply = Inr (),
      generateNonce_reply = Inr (Some \<lparr>nonce = Some ''abc123''\<rparr>),
      signMessage_reply = Inr (Some ''0xsig''),
      getAddress_reply = Inr (Some ''0xA1''),
      verifyMessage_reply = Inr (Some \<lparr>valid = Some (JBool True)\<rparr>),
      sendTransaction_reply = Inr (Some \<lparr>hash = ''0xhash''\<rparr>),
      events = (\<lambda>k. [])\<rparr>"

text \<open>The same world with a backend that rejects the signature.\<close>

definition world_invalid :: world where
  "world_invalid = world_valid\<lparr>verifyMessage_reply := Inr (Some \<lparr>valid = Some (JBool False)\<rparr>)\<rparr>"

text \<open>The same world with a user who declines to sign.\<close>

definition world_declined :: world where
  "world_declined = world_valid\<lparr>signMessage_reply := Inl (Rejected ''User denied message signature'')\<rparr>"

text \<open>The same world with a user who declines to send a transaction.\<close>

definition world_refused :: world where
  "world_refused =
     world_valid\<lparr>sendTransaction_reply := Inl (Rejected ''User denied transaction signature'')\<rparr>"

text \<open>A wallet on a test network, as the non-reactive variant sees it.\<close>

definition testnet_wallet :: ethereum where
  "testnet_wallet = \<lparr>isMetaMask = True, networkVersion = Some 3\<rparr>"

text \<open>The same world with a backend whose verify response has an empty (\<open>null\<close>) body.\<close>

definition world_empty_body :: world where
  "world_empty_body = world_valid\<lparr>verifyMessage_reply := Inr None\<rparr>"

text \<open>A backend that answers without a nonce, and a signer whose address does not resolve.\<close>

definition world_no_nonce :: world where
  "world_no_nonce = world_valid\<lparr>generateNonce_reply := Inr (Some \<lparr>nonce = None\<rparr>)\<rparr>"

definition world_no_address :: world where
  "world_no_address = world_valid\<lparr>getAddress_reply := Inr None\<rparr>"

text \<open>A service connected to account \<open>0xA1\<close> on a test network, and the same after a login.\<close>

definition connected :: service where
  "connected =
     onChainChanged_then \<lparr>name = ''goerli'', chainId = 5\<rparr>
       (onAccountsChanged (Some [''0xA1'']) (new_MetaMaskService ''https://api.example'' True))"

definition authenticated :: service where
  "authenticated = snd (requestLogin world_valid connected)"

section \<open>Properties of the reactive service\<close>

subsection \<open>The setters and the event handlers\<close>

lemma emit_fields [simp]:
  "apiURL (emit e s) = apiURL s" "provider (emit e s) = provider s"
  "network (emit e s) = network s" "isAuthenticated (emit e s) = isAuthenticated s"
  "account (emit e s) = account s" "trace (emit e s) = trace s @ [e]"
  by (simp_all add: emit_def)

lemma set_network_fields [simp]:
  "apiURL (set_network n s) = apiURL s" "provider (set_network n s) = provider s"
  "network (set_network n s) = n" "isAuthenticated (set_network n s) = isAuthenticated s"
  "account (set_network n s) = account s"
  "trace (set_network n s) = trace s @ [NetworkNext n]"
  by (simp_all add: set_network_def)

lemma set_account_fields [simp]:
  "apiURL (set_account a s) = apiURL s" "provider (set_account a s) = provider s"
  "network (set_account a s) = network s" "isAuthenticated (set_account a s) = isAuthenticated s"
  "account (set_account a s) = a"
  "trace (set_account a s) = trace s @ [AccountNext a]"
  by (simp_all add: set_account_def)

lemma set_isAuthenticated_fields [simp]:
  "apiURL (set_isAuthenticated b s) = apiURL s" "provider (set_isAuthenticated b s) = provider s"
  "network (set_isAuthenticated b s) = network s" "isAuthenticated (set_isAuthenticated b s) = b"
  "account (set_isAuthenticated b s) = account s"
  "trace (set_isAuthenticated b s) = trace s @ [IsAuthenticatedNext b]"
  by (simp_all add: set_isAuthenticated_def)

lemma onAccountsChanged_fields:
  "apiURL (onAccountsChanged accounts s) = apiURL s"
  "provider (onAccountsChanged accounts s) = provider s"
  "network (onAccountsChanged accounts s) = network s"
  "isAuthenticated (onAccountsChanged accounts s) = False"
  "account (onAccountsChanged accounts s) =
     (case accounts of None \<Rightarrow> None | Some [] \<Rightarrow> None | Some (a # rest) \<Rightarrow> Some a)"
  by (simp_all add: onAccountsChanged_def Let_def split: option.split list.split)

lemma onAccountsChanged_trace:
  "\<exists>ys. trace (onAccountsChanged accounts s) = trace s @ ys \<and> list_all handler_effect ys"
  by (simp add: onAccountsChanged_def Let_def split: option.split list.split)

lemma onChainChanged_fields:
  "apiURL (onChainChanged c s) = apiURL s"
  "provider (onChainChanged c s) = provider s"
  "network (onChainChanged c s) = network s"
  "isAuthenticated (onChainChanged c s) = isAuthenticated s"
  "account (onChainChanged c s) = account s"
  by (simp_all add: onChainChanged_def Let_def)

lemma onChainChanged_then_fields:
  "apiURL (onChainChanged_then n s) = apiURL s"
  "provider (onChainChanged_then n s) = provider s"
  "network (onChainChanged_then n s) = Some n"
  "isAuthenticated (onChainChanged_then n s) = isAuthenticated s"
  "account (onChainChanged_then n s) = account s"
  by (simp_all add: onChainChanged_then_def)

lemma handle_frame:
  "apiURL (handle ev s) = apiURL s" "provider (handle ev s) = provider s"
  by (cases ev; simp add: onAccountsChanged_fields onChainChanged_fields onChainChanged_then_fields)+

lemma handle_isAuthenticated: "isAuthenticated (handle ev s) \<Longrightarrow> isAuthenticated s"
  by (cases ev) (simp_all add: onAccountsChanged_fields onChainChanged_fields onChainChanged_then_fields)

lemma handle_trace: "\<exists>ys. trace (handle ev s) = trace s @ ys \<and> list_all handler_effect ys"
  by (cases ev) (simp_all add: onAccountsChanged_trace onChainChanged_def onChainChanged_then_def Let_def)

lemma deliver_Nil [simp]: "deliver [] s = s"
  by (simp add: deliver_def)

lemma deliver_Cons: "deliver (ev # evs) s = deliver evs (handle ev s)"
  by (simp add: deliver_def)

lemma deliver_frame [simp]:
  "apiURL (deliver evs s) = apiURL s" "provider (deliver evs s) = provider s"
  by (induction evs arbitrary: s; simp add: deliver_Cons handle_frame)+

lemma deliver_isAuthenticated: "isAuthenticated (deliver evs s) \<Longrightarrow> isAuthenticated s"
  by (induction evs arbitrary: s) (auto simp: deliver_Cons dest: handle_isAuthenticated)

lemma deliver_not_authenticated [simp]:
  "\<not> isAuthenticated s \<Longrightarrow> isAuthenticated (deliver evs s) = False"
  using deliver_isAuthenticated by blast

lemma deliver_extends:
  "\<exists>ys. trace (deliver evs s) = trace s @ ys \<and> list_all handler_effect ys"
proof (induction evs arbitrary: s)
  case Nil
  show ?case by simp
next
  case (Cons ev evs)
  obtain ys where ys: "trace (handle ev s) = trace s @ ys" "list_all handler_effect ys"
    using handle_trace by blast
  obtain zs where zs: "trace (deliver evs (handle ev s)) = trace (handle ev s) @ zs"
      "list_all handler_effect zs"
    using Cons.IH by blast
  show ?case
    using ys zs by (simp add: deliver_Cons)
qed

lemma delivered_handler: "list_all handler_effect (delivered evs s)"
  using deliver_extends [of evs s] by (auto simp: delivered_def)

lemma trace_deliver [simp]: "trace (deliver evs s) = trace s @ delivered evs s"
  using deliver_extends [of evs s] by (auto simp: delivered_def)

lemma handler_effect_not_request: "handler_effect e \<Longrightarrow> \<not> is_request e"
  by (cases e) simp_all

lemma delivered_requests [simp]: "filter is_request (delivered evs s) = []"
  using delivered_handler [of evs s]
  by (auto simp: filter_empty_conv list_all_iff dest: handler_effect_not_request)

lemma delivered_no_login [simp]: "IsAuthenticatedNext True \<notin> set (delivered evs s)"
  using delivered_handler [of evs s] by (auto simp: list_all_iff)

lemma delivered_Nil [simp]: "delivered [] s = []"
  by (simp add: delivered_def)

subsection \<open>The login flow never leaves a failed attempt authenticated\<close>

lemmas login_steps =
  requestAccount_def getSigner_def generateNonce_def verifyMessage_def
  signer_signMessage_def signer_getAddress_def

lemma login_verified_failure:
  "isl (fst (login_verified res s)) \<Longrightarrow> snd (login_verified res s) = s"
  by (simp add: login_verified_def Let_def split: option.splits if_splits)

lemma login_signed_failure:
  "\<not> isAuthenticated s \<Longrightarrow> isl (fst (login_signed w sg n s))
     \<Longrightarrow> \<not> isAuthenticated (snd (login_signed w sg n s))"
  by (auto simp: login_signed_def login_steps login_verified_def Let_def
      split: sum.splits option.splits if_splits)

lemma requestLogin_failure:
  "isl (fst (requestLogin w s)) \<Longrightarrow> \<not> isAuthenticated (snd (requestLogin w s))"
  by (auto simp: requestLogin_def login_steps Let_def login_signed_failure
      split: sum.splits option.splits if_splits)


lemma getSigner_not_authenticated:
  "\<not> isAuthenticated s \<Longrightarrow> \<not> isAuthenticated (snd (getSigner reply evs s))"
  by (simp add: login_steps split: sum.splits)

lemma requestSendTransaction_not_authenticated:
  "\<not> isAuthenticated s
     \<Longrightarrow> \<not> isAuthenticated (snd (requestSendTransaction w isProd toAdress amountETH s))"
  by (simp add: requestSendTransaction_def login_steps Let_def
      split: sum.splits option.splits)

lemma step_not_authenticated:
  "\<not> isAuthenticated s \<Longrightarrow> no_successful_login (c # calls) s
     \<Longrightarrow> \<not> isAuthenticated (step c s)"
proof (cases c)
  case (Event ev)
  assume "\<not> isAuthenticated s"
  then show ?thesis
    using Event handle_isAuthenticated by auto
next
  case (Login w)
  assume "no_successful_login (c # calls) s"
  then show ?thesis
    using Login requestLogin_failure by simp
next
  case Logout
  show ?thesis
    by (simp add: Logout logout_def)
next
  case (SendTransaction w isProd toAdress amountETH)
  assume "\<not> isAuthenticated s"
  then show ?thesis
    using SendTransaction requestSendTransaction_not_authenticated by simp
qed

lemma no_successful_login_tail:
  "no_successful_login (c # calls) s \<Longrightarrow> no_successful_login calls (step c s)"
  by (cases c) simp_all

lemma run_not_authenticated:
  "\<not> isAuthenticated s \<Longrightarrow> no_successful_login calls s \<Longrightarrow> \<not> isAuthenticated (run calls s)"
proof (induction calls arbitrary: s)
  case Nil
  then show ?case by (simp add: run_def)
next
  case (Cons c calls)
  have "\<not> isAuthenticated (step c s)"
    using Cons.prems by (rule step_not_authenticated)
  moreover have "no_successful_login calls (step c s)"
    using Cons.prems(2) by (rule no_successful_login_tail)
  ultimately have "\<not> isAuthenticated (run calls (step c s))"
    by (rule Cons.IH)
  then show ?case by (simp add: run_def)
qed

subsection \<open>The example states\<close>

lemmas example_defs =
  world_valid_def world_invalid_def world_declined_def connected_def authenticated_def
  new_MetaMaskService_def onAccountsChanged_def onChainChanged_def onChainChanged_then_def
  requestLogin_def login_signed_def login_verified_def login_steps logout_def
  getBackendUrl_def show_undefined_def

lemma authenticated_fields:
  "isAuthenticated authenticated" "account authenticated = Some ''0xA1''"
  "network authenticated = Some \<lparr>name = ''goerli'', chainId = 5\<rparr>" "provider authenticated"
  by (simp_all add: example_defs Let_def)

lemma connected_fields:
  "\<not> isAuthenticated connected" "account connected = Some ''0xA1''"
  "network connected = Some \<lparr>name = ''goerli'', chainId = 5\<rparr>" "provider connected"
  by (simp_all add: example_defs Let_def)

lemma world_valid_fields:
  "requestAccounts_reply world_valid = Inr ()"
  "generateNonce_reply world_valid = Inr (Some \<lparr>nonce = Some ''abc123''\<rparr>)"
  "signMessage_reply world_valid = Inr (Some ''0xsig'')"
  "getAddress_reply world_valid = Inr (Some ''0xA1'')"
  "verifyMessage_reply world_valid = Inr (Some \<lparr>valid = Some (JBool True)\<rparr>)"
  "sendTransaction_reply world_valid = Inr (Some \<lparr>hash = ''0xhash''\<rparr>)"
  "events world_valid k = []"
  by (simp_all add: world_valid_def)

lemma world_invalid_fields:
  "requestAccounts_reply world_invalid = Inr ()"
  "generateNonce_reply world_invalid = Inr (Some \<lparr>nonce = Some ''abc123''\<rparr>)"
  "signMessage_reply world_invalid = Inr (Some ''0xsig'')"
  "getAddress_reply world_invalid = Inr (Some ''0xA1'')"
  "verifyMessage_reply world_invalid = Inr (Some \<lparr>valid = Some (JBool False)\<rparr>)"
  "events world_invalid k = []"
  by (simp_all add: world_invalid_def world_valid_def)

subsection \<open>Account and chain events, logout, the backend lookup\<close>

text \<open>
  C1: after \<open>accountsChanged\<close> the account is none for an empty (or missing) list, and
  so the service is not connected; otherwise it is the first element of the list. In
  every case the same run of the handler ends by publishing the new account and then
  \<open>isAuthenticated = false\<close>, and the flag stays false through whatever follows (events,
  logouts, submissions, failed logins) until a login completes successfully.
\<close>

theorem onAccountsChanged_resets_session:
  "account (onAccountsChanged accounts s) =
     (case accounts of None \<Rightarrow> None | Some [] \<Rightarrow> None | Some (a # rest) \<Rightarrow> Some a)
   \<and> isConnected (onAccountsChanged accounts s) = (accounts \<noteq> None \<and> accounts \<noteq> Some [])
   \<and> \<not> isAuthenticated (onAccountsChanged accounts s)
   \<and> network (onAccountsChanged accounts s) = network s
   \<and> (\<exists>logged. since s (onAccountsChanged accounts s)
          = logged @ [AccountNext (account (onAccountsChanged accounts s)),
                      IsAuthenticatedNext False])
   \<and> (no_successful_login calls (onAccountsChanged accounts s)
        \<longrightarrow> \<not> isAuthenticated (run calls (onAccountsChanged accounts s)))"
proof -
  have "isConnected (onAccountsChanged accounts s) = (accounts \<noteq> None \<and> accounts \<noteq> Some [])"
    by (simp add: isConnected_def onAccountsChanged_fields split: option.split list.split)
  moreover have "\<exists>logged. since s (onAccountsChanged accounts s)
          = logged @ [AccountNext (account (onAccountsChanged accounts s)),
                      IsAuthenticatedNext False]"
    by (simp add: onAccountsChanged_def since_def Let_def split: option.split list.split)
  moreover have "no_successful_login calls (onAccountsChanged accounts s)
        \<longrightarrow> \<not> isAuthenticated (run calls (onAccountsChanged accounts s))"
    using run_not_authenticated [of "onAccountsChanged accounts s" calls]
    by (simp add: onAccountsChanged_fields)
  ultimately show ?thesis
    by (simp add: onAccountsChanged_fields)
qed

theorem onAccountsChanged_resets_session_witness:
  "isAuthenticated authenticated
   \<and> account (onAccountsChanged (Some [''0xB2'', ''0xC3'']) authenticated) = Some ''0xB2''
   \<and> no_successful_login [Event (ChainChanged ''0x1''), Login world_declined, Logout]
        (onAccountsChanged (Some [''0xB2'', ''0xC3'']) authenticated)
   \<and> \<not> isAuthenticated
        (run [Event (ChainChanged ''0x1''), Login world_declined, Logout]
           (onAccountsChanged (Some [''0xB2'', ''0xC3'']) authenticated))"
proof -
  let ?s = "onAccountsChanged (Some [''0xB2'', ''0xC3'']) authenticated"
  let ?calls = "[Event (ChainChanged ''0x1''), Login world_declined, Logout]"
  have declined: "isl (fst (requestLogin world_declined s))" for s
    by (simp add: requestLogin_def login_signed_def login_steps world_declined_def
        world_valid_def Let_def)
  have h: "no_successful_login ?calls ?s"
    by (simp add: declined)
  show ?thesis
    using onAccountsChanged_resets_session [of "Some [''0xB2'', ''0xC3'']" authenticated ?calls] h
    by (simp add: authenticated_fields)
qed

text \<open>
  C7: \<open>logout\<close> always resolves; it clears \<open>isAuthenticated\<close>, pushes the new value into
  its subject and does nothing else: no field but the flag changes and no request goes
  to the wallet or the backend.
\<close>

theorem logout_always_succeeds:
  "logout s = (Inr (), s\<lparr>isAuthenticated := False, trace := trace s @ [IsAuthenticatedNext False]\<rparr>)
   \<and> \<not> isAuthenticated (snd (logout s))
   \<and> account (snd (logout s)) = account s
   \<and> network (snd (logout s)) = network s
   \<and> since s (snd (logout s)) = [IsAuthenticatedNext False]
   \<and> filter is_wallet_call (since s (snd (logout s))) = []
   \<and> filter is_network_call (since s (snd (logout s))) = []"
  by (simp add: logout_def set_isAuthenticated_def emit_def since_def)

theorem logout_always_succeeds_witness:
  "isAuthenticated authenticated
   \<and> fst (logout authenticated) = Inr ()
   \<and> \<not> isAuthenticated (snd (logout authenticated))
   \<and> account (snd (logout authenticated)) = Some ''0xA1''"
  using logout_always_succeeds [of authenticated]
  by (simp add: authenticated_fields)

text \<open>
  C8: the \<open>chainChanged\<close> handler logs the chain id and asks the provider for the current
  network, changing no field; the callback that receives the answer stores it in the
  network field and changes neither the account nor \<open>isAuthenticated\<close>.
\<close>

theorem onChainChanged_updates_network_only:
  "since s (onChainChanged c s) =
     ConsoleLog (''onChainChanged '' @ c) # (if provider s then [ProviderGetNetwork] else [])
   \<and> onChainChanged c s = s\<lparr>trace := trace (onChainChanged c s)\<rparr>
   \<and> onChainChanged_then n s = s\<lparr>network := Some n, trace := trace s @ [NetworkNext (Some n)]\<rparr>
   \<and> account (onChainChanged_then n (onChainChanged c s)) = account s
   \<and> isAuthenticated (onChainChanged_then n (onChainChanged c s)) = isAuthenticated s
   \<and> network (onChainChanged_then n (onChainChanged c s)) = Some n"
  by (simp add: onChainChanged_def onChainChanged_then_def set_network_def emit_def since_def
      Let_def)

theorem onChainChanged_updates_network_only_witness:
  "since authenticated (onChainChanged ''0x1'' authenticated)
     = [ConsoleLog ''onChainChanged 0x1'', ProviderGetNetwork]
   \<and> network (onChainChanged_then \<lparr>name = ''homestead'', chainId = 1\<rparr>
                (onChainChanged ''0x1'' authenticated))
     = Some \<lparr>name = ''homestead'', chainId = 1\<rparr>
   \<and> account (onChainChanged_then \<lparr>name = ''homestead'', chainId = 1\<rparr>
                (onChainChanged ''0x1'' authenticated)) = Some ''0xA1''
   \<and> isAuthenticated (onChainChanged_then \<lparr>name = ''homestead'', chainId = 1\<rparr>
                (onChainChanged ''0x1'' authenticated))"
  using onChainChanged_updates_network_only
    [of authenticated "''0x1''" "\<lparr>name = ''homestead'', chainId = 1\<rparr>"]
  by (simp add: authenticated_fields)

text \<open>
  C10: the backend-based confirmation check resolves with \<open>null\<close> for every transaction
  hash, in both variants of the service, and does nothing else.
\<close>

theorem checkTransactionConfirmationFromBackend_null:
  "checkTransactionConfirmationFromBackend txhash s = (Inr None, s)
   \<and> checkTransactionConfirmationFromBackend_part000 txhash = (Inr None, [])"
  by (simp add: checkTransactionConfirmationFromBackend_def
      checkTransactionConfirmationFromBackend_part000_def)

theorem checkTransactionConfirmationFromBackend_null_witness:
  "fst (checkTransactionConfirmationFromBackend ''0xhash'' authenticated) = Inr None
   \<and> fst (checkTransactionConfirmationFromBackend_part000 ''0xhash'') = Inr None"
  using checkTransactionConfirmationFromBackend_null [of "''0xhash''" authenticated]
  by simp

subsection \<open>The login flow\<close>

lemma login_verified_success:
  "\<not> isl (fst (login_verified res s))
     \<Longrightarrow> isAuthenticated (snd (login_verified res s))
         \<and> (\<exists>v. res = Some v \<and> valid v = Some (JBool True))"
  by (auto simp: login_verified_def Let_def split: option.splits if_splits)

lemma login_signed_success:
  "\<not> isl (fst (login_signed w sg n s))
     \<Longrightarrow> isAuthenticated (snd (login_signed w sg n s))
         \<and> sg \<noteq> None
         \<and> (\<exists>x. signMessage_reply w = Inr (Some x))
         \<and> (\<exists>a. getAddress_reply w = Inr (Some a))
         \<and> (\<exists>v. verifyMessage_reply w = Inr (Some v) \<and> valid v = Some (JBool True))"
  by (auto simp: login_signed_def login_steps Let_def
      split: sum.splits option.splits dest: login_verified_success)

lemma requestLogin_success:
  "\<not> isl (fst (requestLogin w s))
     \<Longrightarrow> isAuthenticated (snd (requestLogin w s))
         \<and> provider s
         \<and> requestAccounts_reply w = Inr ()
         \<and> (\<exists>res n. generateNonce_reply w = Inr (Some res) \<and> nonce res = Some n)
         \<and> (\<exists>x. signMessage_reply w = Inr (Some x))
         \<and> (\<exists>a. getAddress_reply w = Inr (Some a))
         \<and> (\<exists>v. verifyMessage_reply w = Inr (Some v) \<and> valid v = Some (JBool True))"
  by (auto simp: requestLogin_def login_steps Let_def
      split: sum.splits option.splits if_splits dest: login_signed_success)

lemma requestLogin_first:
  "\<exists>ys. trace (snd (requestLogin w s)) = trace s @ IsAuthenticatedNext False # ys"
  by (simp add: requestLogin_def login_signed_def login_verified_def login_steps Let_def
      split: sum.splits option.splits)

text \<open>
  C5, as the code has it: when the login flow reaches the verification step, a response
  object with \<open>valid\<close> equal to \<open>true\<close> makes the login resolve with the current account and
  sets \<open>isAuthenticated\<close> to true as its last action; a response object with any other
  value of \<open>valid\<close>, or none, makes it fail with the error \<open>Signature invalid\<close>; a response
  with an empty (\<open>null\<close>) body makes it fail with a \<open>TypeError\<close>, raised by reading
  \<open>valid\<close> of \<open>null\<close>. In both failures \<open>isAuthenticated\<close> is never set to true. The
  verify request carries the nonce, the address and the signature.
\<close>

theorem requestLogin_verification:
  assumes "provider s"
    and "requestAccounts_reply w = Inr ()"
    and "generateNonce_reply w = Inr (Some res)"
    and "nonce res = Some n"
    and "signMessage_reply w = Inr (Some sg)"
    and "getAddress_reply w = Inr (Some addr)"
    and "verifyMessage_reply w = Inr body"
  shows "(case body of
            None \<Rightarrow>
              fst (requestLogin w s) = Inl TypeError
              \<and> \<not> isAuthenticated (snd (requestLogin w s))
              \<and> IsAuthenticatedNext True \<notin> set (since s (snd (requestLogin w s)))
          | Some v \<Rightarrow>
              (if valid v = Some (JBool True)
               then fst (requestLogin w s) = Inr (account (snd (requestLogin w s)))
                    \<and> isAuthenticated (snd (requestLogin w s))
                    \<and> last (trace (snd (requestLogin w s))) = IsAuthenticatedNext True
               else fst (requestLogin w s) = Inl (Error ''Signature invalid'')
                    \<and> \<not> isAuthenticated (snd (requestLogin w s))
                    \<and> IsAuthenticatedNext True \<notin> set (since s (snd (requestLogin w s)))))
         \<and> HttpGet (getBackendUrl s ''/metamask/verify/message'')
              [(''message'', n), (''address'', addr), (''signature'', sg)]
            \<in> set (since s (snd (requestLogin w s)))"
  using assms
  by (cases body)
     (simp_all add: requestLogin_def login_signed_def login_verified_def login_steps Let_def
        since_def getBackendUrl_def)

theorem requestLogin_verification_witness:
  "provider connected
   \<and> fst (requestLogin world_valid connected) = Inr (Some ''0xA1'')
   \<and> isAuthenticated (snd (requestLogin world_valid connected))
   \<and> fst (requestLogin world_invalid authenticated) = Inl (Error ''Signature invalid'')
   \<and> \<not> isAuthenticated (snd (requestLogin world_invalid authenticated))
   \<and> fst (requestLogin world_empty_body authenticated) = Inl TypeError
   \<and> \<not> isAuthenticated (snd (requestLogin world_empty_body authenticated))"
proof -
  have "account (snd (requestLogin world_valid connected)) = Some ''0xA1''"
    using authenticated_fields(2) by (simp add: authenticated_def)
  then show ?thesis
    using requestLogin_verification [of connected world_valid "\<lparr>nonce = Some ''abc123''\<rparr>"
        "''abc123''" "''0xsig''" "''0xA1''" "Some \<lparr>valid = Some (JBool True)\<rparr>"]
      requestLogin_verification [of authenticated world_invalid "\<lparr>nonce = Some ''abc123''\<rparr>"
        "''abc123''" "''0xsig''" "''0xA1''" "Some \<lparr>valid = Some (JBool False)\<rparr>"]
      requestLogin_verification [of authenticated world_empty_body
        "\<lparr>nonce = Some ''abc123''\<rparr>" "''abc123''" "''0xsig''" "''0xA1''" None]
    by (simp add: world_valid_fields world_invalid_fields world_empty_body_def
        connected_fields authenticated_fields)
qed

text \<open>
  Against C5 as stated: a verify response with an empty body is a response other than
  \<open>valid = true\<close>, and the login fails with a \<open>TypeError\<close>, not with \<open>Signature invalid\<close>.
\<close>

theorem requestLogin_empty_body_counterexample:
  "verifyMessage_reply world_empty_body = Inr None
   \<and> fst (requestLogin world_empty_body connected) = Inl TypeError
   \<and> fst (requestLogin world_empty_body connected) \<noteq> Inl (Error ''Signature invalid'')"
  by (simp add: requestLogin_def login_signed_def login_verified_def login_steps Let_def
      world_empty_body_def world_valid_def connected_fields)

text \<open>
  C6: the first thing \<open>requestLogin\<close> does is to set \<open>isAuthenticated\<close> to false. When it
  terminates, \<open>isAuthenticated\<close> is true exactly if the login resolved; a login that fails
  at any stage leaves it false, and a login resolves only after the whole handshake:
  account access, a nonce, a signature, an address and a response with \<open>valid\<close> true.
\<close>

theorem requestLogin_resets_first:
  "take 1 (since s (snd (requestLogin w s))) = [IsAuthenticatedNext False]
   \<and> isAuthenticated (snd (requestLogin w s)) = (\<not> isl (fst (requestLogin w s)))
   \<and> (isl (fst (requestLogin w s)) \<longrightarrow> \<not> isAuthenticated (snd (requestLogin w s)))
   \<and> (isAuthenticated (snd (requestLogin w s)) \<longrightarrow>
        provider s
        \<and> requestAccounts_reply w = Inr ()
        \<and> (\<exists>res n. generateNonce_reply w = Inr (Some res) \<and> nonce res = Some n)
        \<and> (\<exists>x. signMessage_reply w = Inr (Some x))
        \<and> (\<exists>a. getAddress_reply w = Inr (Some a))
        \<and> (\<exists>v. verifyMessage_reply w = Inr (Some v) \<and> valid v = Some (JBool True)))"
proof -
  obtain ys where "trace (snd (requestLogin w s)) = trace s @ IsAuthenticatedNext False # ys"
    using requestLogin_first by blast
  then have first: "take 1 (since s (snd (requestLogin w s))) = [IsAuthenticatedNext False]"
    by (simp add: since_def)
  have failed: "isl (fst (requestLogin w s)) \<longrightarrow> \<not> isAuthenticated (snd (requestLogin w s))"
    using requestLogin_failure by blast
  have iff: "isAuthenticated (snd (requestLogin w s)) = (\<not> isl (fst (requestLogin w s)))"
    using requestLogin_failure [of w s] requestLogin_success [of w s] by blast
  show ?thesis
    using first failed iff requestLogin_success [of w s] by blast
qed


theorem requestLogin_resets_first_witness:
  "isAuthenticated authenticated
   \<and> fst (requestLogin world_no_nonce authenticated) = Inl (Error ''Could not generate nonce!'')
   \<and> \<not> isAuthenticated (snd (requestLogin world_no_nonce authenticated))
   \<and> fst (requestLogin world_declined authenticated)
       = Inl (Rejected ''User denied message signature'')
   \<and> \<not> isAuthenticated (snd (requestLogin world_declined authenticated))
   \<and> fst (requestLogin world_no_address authenticated) = Inl (Error ''Could not get address!'')
   \<and> \<not> isAuthenticated (snd (requestLogin world_no_address authenticated))
   \<and> fst (requestLogin world_invalid authenticated) = Inl (Error ''Signature invalid'')
   \<and> \<not> isAuthenticated (snd (requestLogin world_invalid authenticated))
   \<and> isAuthenticated (snd (requestLogin world_valid connected))
   \<and> take 1 (since authenticated (snd (requestLogin world_valid authenticated)))
       = [IsAuthenticatedNext False]"
proof -
  have results:
    "fst (requestLogin world_no_nonce authenticated) = Inl (Error ''Could not generate nonce!'')"
    "fst (requestLogin world_declined authenticated)
       = Inl (Rejected ''User denied message signature'')"
    "fst (requestLogin world_no_address authenticated) = Inl (Error ''Could not get address!'')"
    "fst (requestLogin world_invalid authenticated) = Inl (Error ''Signature invalid'')"
    "\<not> isl (fst (requestLogin world_valid connected))"
    by (simp_all add: requestLogin_def login_signed_def login_verified_def login_steps Let_def
        world_no_nonce_def world_declined_def world_no_address_def world_invalid_def
        world_valid_def authenticated_fields connected_fields)
  show ?thesis
    using requestLogin_resets_first [of authenticated world_no_nonce]
      requestLogin_resets_first [of authenticated world_declined]
      requestLogin_resets_first [of authenticated world_no_address]
      requestLogin_resets_first [of authenticated world_invalid]
      requestLogin_resets_first [of connected world_valid]
      requestLogin_resets_first [of authenticated world_valid]
    by (simp add: results authenticated_fields)
qed

section \<open>Properties of the amount conversion\<close>

subsection \<open>Digits\<close>

lemma digit_val_zero [simp]: "digit_val CHR ''0'' = 0"
  by (simp add: digit_val_def)

lemma digit_roundtrip: "d < 10 \<Longrightarrow> digit_val (digit_char d) = d"
  by (simp add: digit_val_def digit_char_def)

lemma is_digit_digit_char: "d < 10 \<Longrightarrow> is_digit (digit_char d)"
  by (simp add: is_digit_def digit_char_def)

lemma is_digit_not_dot: "is_digit c \<Longrightarrow> not_dot c"
  by (auto simp: is_digit_def not_dot_def)

lemma is_digit_not_minus: "is_digit c \<Longrightarrow> c \<noteq> CHR ''-''"
  by (auto simp: is_digit_def)

lemma foldl_digits:
  "foldl (\<lambda>n c. 10 * n + digit_val c) a ds = a * 10 ^ length ds + nat_of_digits ds"
proof (induction ds arbitrary: a)
  case Nil
  show ?case by (simp add: nat_of_digits_def)
next
  case (Cons c ds)
  have "foldl (\<lambda>n c. 10 * n + digit_val c) a (c # ds)
        = (10 * a + digit_val c) * 10 ^ length ds + nat_of_digits ds"
    by (simp add: Cons.IH)
  moreover have "nat_of_digits (c # ds) = digit_val c * 10 ^ length ds + nat_of_digits ds"
    by (simp add: nat_of_digits_def Cons.IH [of "digit_val c"])
  ultimately show ?case
    by (simp add: algebra_simps)
qed

lemma nat_of_digits_Nil [simp]: "nat_of_digits [] = 0"
  by (simp add: nat_of_digits_def)

lemma nat_of_digits_append:
  "nat_of_digits (xs @ ys) = nat_of_digits xs * 10 ^ length ys + nat_of_digits ys"
  unfolding nat_of_digits_def foldl_append
  by (rule foldl_digits [unfolded nat_of_digits_def])

lemma nat_of_digits_single [simp]: "nat_of_digits [c] = digit_val c"
  by (simp add: nat_of_digits_def)

lemma nat_of_digits_Cons:
  "nat_of_digits (c # ds) = digit_val c * 10 ^ length ds + nat_of_digits ds"
  using nat_of_digits_append [of "[c]" ds] by simp

lemma nat_of_digits_zeros [simp]: "nat_of_digits (replicate k CHR ''0'') = 0"
  by (induction k) (simp_all add: nat_of_digits_Cons)

lemma nat_of_digits_pad_right:
  "nat_of_digits (ds @ replicate k CHR ''0'') = nat_of_digits ds * 10 ^ k"
  by (simp add: nat_of_digits_append)

lemma nat_of_digits_pad_left [simp]:
  "nat_of_digits (replicate k CHR ''0'' @ ds) = nat_of_digits ds"
  by (simp add: nat_of_digits_append)

declare digits_of_nat.simps [simp del]

lemma digits_of_nat_digits: "list_all is_digit (digits_of_nat n)"
proof (induction n rule: digits_of_nat.induct)
  case (1 n)
  show ?case
  proof (cases "n < 10")
    case True
    then show ?thesis
      by (simp add: digits_of_nat.simps [of n] is_digit_digit_char)
  next
    case False
    then show ?thesis
      using "1.IH" by (simp add: digits_of_nat.simps [of n] is_digit_digit_char)
  qed
qed

lemma digits_of_nat_not_Nil [simp]: "digits_of_nat n \<noteq> []"
  by (simp add: digits_of_nat.simps [of n])

lemma nat_of_digits_of_nat [simp]: "nat_of_digits (digits_of_nat n) = n"
proof (induction n rule: digits_of_nat.induct)
  case (1 n)
  show ?case
  proof (cases "n < 10")
    case True
    then show ?thesis
      by (simp add: digits_of_nat.simps [of n] digit_roundtrip)
  next
    case False
    then have "nat_of_digits (digits_of_nat n) = (n div 10) * 10 + n mod 10"
      using "1.IH" by (simp add: digits_of_nat.simps [of n] nat_of_digits_append digit_roundtrip)
    then show ?thesis by simp
  qed
qed

lemma length_digits_of_nat: "n < 10 ^ k \<Longrightarrow> 0 < k \<Longrightarrow> length (digits_of_nat n) \<le> k"
proof (induction n arbitrary: k rule: digits_of_nat.induct)
  case (1 n)
  show ?case
  proof (cases "n < 10")
    case True
    then show ?thesis
      using "1.prems" by (simp add: digits_of_nat.simps [of n])
  next
    case False
    then obtain j where j: "k = Suc j"
      using "1.prems" by (cases k) auto
    have "0 < j"
      using False "1.prems" j by (cases j) auto
    moreover have "n div 10 < 10 ^ j"
      using "1.prems" j by (simp add: less_mult_imp_div_less mult.commute)
    ultimately have "length (digits_of_nat (n div 10)) \<le> j"
      using "1.IH" False by simp
    then show ?thesis
      using False j by (simp add: digits_of_nat.simps [of n])
  qed
qed

subsection \<open>Trailing zeros\<close>

lemma strip_trailing_zeros_decomp:
  "\<exists>k. ds = strip_trailing_zeros ds @ replicate k CHR ''0''"
proof -
  let ?P = "\<lambda>c. c = CHR ''0''"
  have "rev ds = takeWhile ?P (rev ds) @ dropWhile ?P (rev ds)"
    by simp
  moreover have "takeWhile ?P (rev ds) = replicate (length (takeWhile ?P (rev ds))) CHR ''0''"
    by (rule replicate_eqI) (auto dest: set_takeWhileD)
  ultimately have "rev ds = replicate (length (takeWhile ?P (rev ds))) CHR ''0''
                            @ dropWhile ?P (rev ds)"
    by simp
  then have "rev (rev ds) = rev (replicate (length (takeWhile ?P (rev ds))) CHR ''0''
                            @ dropWhile ?P (rev ds))"
    by simp
  then have "ds = strip_trailing_zeros ds @ replicate (length (takeWhile ?P (rev ds))) CHR ''0''"
    by (simp add: strip_trailing_zeros_def)
  then show ?thesis ..
qed

lemma strip_trailing_zeros_digits:
  "list_all is_digit ds \<Longrightarrow> list_all is_digit (strip_trailing_zeros ds)"
  by (auto simp: strip_trailing_zeros_def list_all_iff dest: set_dropWhileD)

lemma strip_trailing_zeros_length: "length (strip_trailing_zeros ds) \<le> length ds"
  by (simp add: strip_trailing_zeros_def length_dropWhile_le [of _ "rev ds", simplified])


subsection \<open>Parsing is exact\<close>

lemma fraction_value_pad:
  "(of_nat (nat_of_digits (ds @ replicate k CHR ''0'')) :: rat)
     / 10 ^ length (ds @ replicate k CHR ''0'')
   = of_nat (nat_of_digits ds) / 10 ^ length ds"
  by (simp add: nat_of_digits_pad_right power_add)

lemma scale_fraction: "j \<le> n \<Longrightarrow> (a::rat) * 10 ^ (n - j) = a / 10 ^ j * 10 ^ n"
  by (simp add: power_diff)

lemma parse_unsigned_exact:
  assumes dec: "is_unsigned_decimal v" and len: "fraction_digits v \<le> decimals"
  shows "\<exists>w. parse_unsigned v = Inr w \<and> (of_int w :: rat) = unsigned_value v * 10 ^ decimals"
proof -
  define whole0 where "whole0 = takeWhile not_dot v"
  define rest where "rest = tl (dropWhile not_dot v)"
  define fraction where "fraction = strip_trailing_zeros (if rest = [] then ''0'' else rest)"
  have v: "v \<noteq> []" "v \<noteq> ''.''" and dw: "list_all is_digit whole0" and dr: "list_all is_digit rest"
    using dec by (simp_all add: is_unsigned_decimal_def whole0_def rest_def)
  have split: "v = whole0 @ dropWhile not_dot v"
    by (simp add: whole0_def)
  have chars: "list_all (\<lambda>c. is_digit c \<or> c = CHR ''.'') v"
  proof -
    have "list_all (\<lambda>c. is_digit c \<or> c = CHR ''.'') whole0"
      using dw by (simp add: list_all_iff)
    moreover have "list_all (\<lambda>c. is_digit c \<or> c = CHR ''.'') (dropWhile not_dot v)"
    proof (cases "dropWhile not_dot v")
      case Nil
      show ?thesis
        unfolding Nil by simp
    next
      case (Cons c cs)
      then have "\<not> not_dot c"
        using hd_dropWhile [of not_dot v] by simp
      then have eq: "dropWhile not_dot v = CHR ''.'' # rest"
        using Cons by (simp add: rest_def not_dot_def)
      show ?thesis
        unfolding eq using dr by (simp add: list_all_iff)
    qed
    ultimately show ?thesis
      using split by (metis list_all_append)
  qed
  have dots: "list_all not_dot rest"
    using dr by (auto simp: list_all_iff dest: is_digit_not_dot)
  obtain k where k: "(if rest = [] then ''0'' else rest) = fraction @ replicate k CHR ''0''"
    using strip_trailing_zeros_decomp [of "if rest = [] then ''0'' else rest"]
    by (auto simp: fraction_def)
  have flen: "length fraction \<le> decimals"
  proof (cases "rest = []")
    case True
    then have "fraction = []"
      by (simp add: fraction_def strip_trailing_zeros_def)
    then show ?thesis by simp
  next
    case False
    then have "length fraction \<le> length rest"
      by (simp add: fraction_def strip_trailing_zeros_length)
    then show ?thesis
      using len by (simp add: fraction_digits_def rest_def)
  qed
  have fval: "(of_nat (nat_of_digits rest) :: rat) / 10 ^ length rest
              = of_nat (nat_of_digits fraction) / 10 ^ length fraction"
  proof (cases "rest = []")
    case True
    then have "fraction = []"
      by (simp add: fraction_def strip_trailing_zeros_def)
    then show ?thesis
      using True by simp
  next
    case False
    then have "rest = fraction @ replicate k CHR ''0''"
      using k by simp
    then show ?thesis
      using fraction_value_pad [of fraction k] by simp
  qed
  define w where "w = int (nat_of_digits (if whole0 = [] then ''0'' else whole0)) * 10 ^ decimals
      + int (nat_of_digits (fraction @ replicate (decimals - length fraction) CHR ''0''))"
  have "parse_unsigned v =
          (if v = [] \<or> \<not> list_all (\<lambda>c. is_digit c \<or> c = CHR ''.'') v
           then Inl (Error ''invalid decimal value'')
           else if v = ''.'' then Inl (Error ''missing value'')
           else if \<not> list_all not_dot rest then Inl (Error ''too many decimal points'')
           else if length fraction > decimals
           then Inl (Error ''fractional component exceeds decimals'')
           else Inr w)"
    unfolding parse_unsigned_def Let_def whole0_def rest_def fraction_def w_def
    by (rule refl)
  then have parsed: "parse_unsigned v = Inr w"
    using v chars dots flen by simp
  have whole: "nat_of_digits (if whole0 = [] then ''0'' else whole0) = nat_of_digits whole0"
    by simp
  have wv: "(of_int w :: rat) = of_nat (nat_of_digits whole0) * 10 ^ decimals
          + of_nat (nat_of_digits fraction) * 10 ^ (decimals - length fraction)"
    unfolding w_def whole by (simp add: nat_of_digits_pad_right)
  have uv: "unsigned_value v = of_nat (nat_of_digits whole0)
          + of_nat (nat_of_digits rest) / 10 ^ length rest"
    unfolding unsigned_value_def Let_def whole0_def rest_def by (rule refl)
  have "(of_int w :: rat) = unsigned_value v * 10 ^ decimals"
    unfolding wv uv fval scale_fraction [OF flen] by (simp add: distrib_right)
  then show ?thesis
    using parsed by blast
qed

lemma is_negative_Cons: "is_negative s \<Longrightarrow> s = CHR ''-'' # tl s"
  by (cases s) (simp_all add: is_negative_def)

lemma fraction_digits_minus: "is_negative s \<Longrightarrow> fraction_digits (tl s) = fraction_digits s"
  by (cases s) (simp_all add: is_negative_def fraction_digits_def not_dot_def)

lemma parseEther_exact:
  assumes "is_decimal s" and "fraction_digits s \<le> decimals"
  shows "\<exists>w. parseEther s = Inr w \<and> (of_int w :: rat) = decimal_value s * 10 ^ decimals"
proof (cases "is_negative s")
  case True
  have "is_unsigned_decimal (tl s)" "fraction_digits (tl s) \<le> decimals"
    using assms True by (simp_all add: is_decimal_def fraction_digits_minus)
  then obtain w where "parse_unsigned (tl s) = Inr w"
      "(of_int w :: rat) = unsigned_value (tl s) * 10 ^ decimals"
    using parse_unsigned_exact by blast
  then show ?thesis
    using True by (simp add: parseEther_def decimal_value_def)
next
  case False
  then have "is_unsigned_decimal s"
    using assms by (simp add: is_decimal_def)
  then obtain w where "parse_unsigned s = Inr w"
      "(of_int w :: rat) = unsigned_value s * 10 ^ decimals"
    using parse_unsigned_exact assms(2) by blast
  then show ?thesis
    using False by (simp add: parseEther_def decimal_value_def)
qed

subsection \<open>Formatting is exact\<close>

lemma split_at_dot:
  assumes "list_all is_digit whole"
  shows "takeWhile not_dot (whole @ CHR ''.'' # fraction) = whole"
    and "tl (dropWhile not_dot (whole @ CHR ''.'' # fraction)) = fraction"
proof -
  have all: "\<And>c. c \<in> set whole \<Longrightarrow> not_dot c"
    using assms by (auto simp: list_all_iff dest: is_digit_not_dot)
  have dot: "\<not> not_dot CHR ''.''"
    by (simp add: not_dot_def)
  show "takeWhile not_dot (whole @ CHR ''.'' # fraction) = whole"
    using all dot by (simp add: takeWhile_append2)
  show "tl (dropWhile not_dot (whole @ CHR ''.'' # fraction)) = fraction"
    using all dot by (simp add: dropWhile_append2)
qed

lemma is_digit_zero [simp]: "is_digit CHR ''0''"
  by (simp add: is_digit_def)

lemma decimals_pos: "0 < decimals"
  by (simp add: decimals_def)

lemma format_unsigned_parts:
  "\<exists>fraction. format_unsigned n = digits_of_nat (n div 10 ^ decimals) @ CHR ''.'' # fraction
     \<and> list_all is_digit fraction \<and> length fraction \<le> decimals
     \<and> (of_nat (nat_of_digits fraction) :: rat) / 10 ^ length fraction
         = of_nat (n mod 10 ^ decimals) / 10 ^ decimals"
proof -
  define f where "f = digits_of_nat (n mod 10 ^ decimals)"
  define padded where "padded = replicate (decimals - length f) CHR ''0'' @ f"
  define stripped where "stripped = strip_trailing_zeros padded"
  define fraction where "fraction = (if stripped = [] then ''0'' else stripped)"
  have shape: "format_unsigned n = digits_of_nat (n div 10 ^ decimals) @ CHR ''.'' # fraction"
    unfolding format_unsigned_def Let_def fraction_def stripped_def padded_def f_def
    by (rule refl)
  have "n mod 10 ^ decimals < 10 ^ decimals"
    by simp
  then have flen: "length f \<le> decimals"
    unfolding f_def using decimals_pos by (rule length_digits_of_nat)
  then have plen: "length padded = decimals"
    by (simp add: padded_def)
  have pval: "nat_of_digits padded = n mod 10 ^ decimals"
    by (simp add: padded_def f_def)
  have pdig: "list_all is_digit padded"
    using digits_of_nat_digits [of "n mod 10 ^ decimals"]
    by (auto simp: padded_def f_def list_all_iff)
  obtain k where k: "padded = stripped @ replicate k CHR ''0''"
    using strip_trailing_zeros_decomp [of padded] by (auto simp: stripped_def)
  have "(of_nat (nat_of_digits (stripped @ replicate k CHR ''0'')) :: rat)
          / 10 ^ length (stripped @ replicate k CHR ''0'')
        = of_nat (n mod 10 ^ decimals) / 10 ^ decimals"
    unfolding k [symmetric] pval plen by (rule refl)
  then have sval: "(of_nat (nat_of_digits stripped) :: rat) / 10 ^ length stripped
              = of_nat (n mod 10 ^ decimals) / 10 ^ decimals"
    unfolding fraction_value_pad .
  have "(of_nat (nat_of_digits fraction) :: rat) / 10 ^ length fraction
              = of_nat (nat_of_digits stripped) / 10 ^ length stripped"
    by (simp add: fraction_def)
  then have fval: "(of_nat (nat_of_digits fraction) :: rat) / 10 ^ length fraction
              = of_nat (n mod 10 ^ decimals) / 10 ^ decimals"
    using sval by simp
  have "list_all is_digit stripped"
    unfolding stripped_def using pdig by (rule strip_trailing_zeros_digits)
  then have fdig: "list_all is_digit fraction"
    by (simp add: fraction_def)
  have "length stripped \<le> decimals"
    using strip_trailing_zeros_length [of padded] plen by (simp add: stripped_def)
  then have "length fraction \<le> decimals"
    using decimals_pos by (simp add: fraction_def)
  then show ?thesis
    using shape fdig fval by blast
qed

lemma format_unsigned_value: "unsigned_value (format_unsigned n) = of_nat n / 10 ^ decimals"
proof -
  obtain fraction
    where shape: "format_unsigned n = digits_of_nat (n div 10 ^ decimals) @ CHR ''.'' # fraction"
      and fval: "(of_nat (nat_of_digits fraction) :: rat) / 10 ^ length fraction
         = of_nat (n mod 10 ^ decimals) / 10 ^ decimals"
    using format_unsigned_parts by blast
  have "unsigned_value (format_unsigned n)
        = of_nat (n div 10 ^ decimals) + of_nat (n mod 10 ^ decimals) / 10 ^ decimals"
    unfolding shape unsigned_value_def Let_def
    by (simp only: split_at_dot [OF digits_of_nat_digits] nat_of_digits_of_nat fval)
  also have "\<dots> = (of_nat (n div 10 ^ decimals * 10 ^ decimals + n mod 10 ^ decimals) :: rat)
                    / 10 ^ decimals"
    by (simp add: add_divide_distrib)
  also have "n div 10 ^ decimals * 10 ^ decimals + n mod 10 ^ decimals = n"
    by (rule div_mult_mod_eq)
  finally show ?thesis .
qed

lemma format_unsigned_decimal:
  "is_unsigned_decimal (format_unsigned n) \<and> fraction_digits (format_unsigned n) \<le> decimals
   \<and> \<not> is_negative (format_unsigned n)"
proof -
  obtain fraction
    where shape: "format_unsigned n = digits_of_nat (n div 10 ^ decimals) @ CHR ''.'' # fraction"
      and fdig: "list_all is_digit fraction" and flen: "length fraction \<le> decimals"
    using format_unsigned_parts by blast
  let ?whole = "digits_of_nat (n div 10 ^ decimals)"
  have wdig: "list_all is_digit ?whole"
    by (rule digits_of_nat_digits)
  obtain c cs where whole: "?whole = c # cs"
    using digits_of_nat_not_Nil [of "n div 10 ^ decimals"] by (cases ?whole) auto
  have c: "is_digit c"
    using wdig whole by simp
  have head: "\<not> is_negative (format_unsigned n)"
    unfolding shape whole using c by (auto simp: is_negative_def dest: is_digit_not_minus)
  have "format_unsigned n \<noteq> []" "format_unsigned n \<noteq> ''.''"
    unfolding shape whole by simp_all
  moreover have "list_all is_digit (takeWhile not_dot (format_unsigned n))"
    unfolding shape split_at_dot [OF wdig] by (rule wdig)
  moreover have "list_all is_digit (tl (dropWhile not_dot (format_unsigned n)))"
    unfolding shape split_at_dot [OF wdig] by (rule fdig)
  ultimately have "is_unsigned_decimal (format_unsigned n)"
    by (simp add: is_unsigned_decimal_def)
  moreover have "fraction_digits (format_unsigned n) \<le> decimals"
    unfolding fraction_digits_def shape split_at_dot [OF wdig] by (rule flen)
  ultimately show ?thesis
    using head by blast
qed

lemma formatEther_negative: "is_negative (formatEther w) = (w < 0)"
  using format_unsigned_decimal [of "nat \<bar>w\<bar>"]
  by (cases "w < 0") (simp_all add: formatEther_def is_negative_def)

lemma formatEther_tl: "w < 0 \<Longrightarrow> tl (formatEther w) = format_unsigned (nat \<bar>w\<bar>)"
  by (simp add: formatEther_def)

lemma formatEther_value: "decimal_value (formatEther w) = of_int w / 10 ^ decimals"
proof (cases "w < 0")
  case True
  then have "decimal_value (formatEther w) = - (of_nat (nat \<bar>w\<bar>) / 10 ^ decimals)"
    unfolding decimal_value_def formatEther_negative
    by (simp only: formatEther_tl format_unsigned_value if_True)
  also have "(of_nat (nat \<bar>w\<bar>) :: rat) = - of_int w"
    using True by simp
  finally show ?thesis by simp
next
  case False
  then have "formatEther w = format_unsigned (nat \<bar>w\<bar>)"
    by (simp add: formatEther_def)
  then have "decimal_value (formatEther w) = of_nat (nat \<bar>w\<bar>) / 10 ^ decimals"
    using False formatEther_negative [of w]
    by (simp only: decimal_value_def format_unsigned_value if_False)
  also have "(of_nat (nat \<bar>w\<bar>) :: rat) = of_int w"
    using False by simp
  finally show ?thesis .
qed

lemma formatEther_decimal:
  "is_decimal (formatEther w) \<and> fraction_digits (formatEther w) \<le> decimals"
proof (cases "w < 0")
  case True
  have neg: "is_negative (formatEther w)"
    using True by (simp add: formatEther_negative)
  have tail: "tl (formatEther w) = format_unsigned (nat \<bar>w\<bar>)"
    using True by (rule formatEther_tl)
  have "is_unsigned_decimal (tl (formatEther w))"
    unfolding tail using format_unsigned_decimal by blast
  then have "is_decimal (formatEther w)"
    using neg by (simp add: is_decimal_def)
  moreover have "fraction_digits (tl (formatEther w)) \<le> decimals"
    unfolding tail using format_unsigned_decimal by blast
  then have "fraction_digits (formatEther w) \<le> decimals"
    using fraction_digits_minus [OF neg] by simp
  ultimately show ?thesis by blast
next
  case False
  then have eq: "formatEther w = format_unsigned (nat \<bar>w\<bar>)"
    by (simp add: formatEther_def)
  have "\<not> is_negative (formatEther w)"
    using False by (simp add: formatEther_negative)
  moreover have "is_unsigned_decimal (formatEther w)"
    unfolding eq using format_unsigned_decimal by blast
  ultimately have "is_decimal (formatEther w)"
    by (simp add: is_decimal_def)
  moreover have "fraction_digits (formatEther w) \<le> decimals"
    unfolding eq using format_unsigned_decimal by blast
  ultimately show ?thesis by blast
qed

lemma parseEther_formatEther: "parseEther (formatEther w) = Inr w"
proof -
  obtain w' where w': "parseEther (formatEther w) = Inr w'"
      "(of_int w' :: rat) = decimal_value (formatEther w) * 10 ^ decimals"
    using parseEther_exact formatEther_decimal by blast
  then have "(of_int w' :: rat) = of_int w"
    by (simp add: formatEther_value)
  then show ?thesis
    using w' by simp
qed

subsection \<open>The round trip\<close>

lemma parseEther_examples:
  "parseEther ''1.5'' = Inr 1500000000000000000"
  "parseEther ''2363'' = Inr 2363000000000000000000"
  "parseEther ''1.1'' = Inr 1100000000000000000"
  by (simp_all add: parseEther_def parse_unsigned_def is_negative_def is_digit_def not_dot_def
      strip_trailing_zeros_def decimals_def nat_of_digits_Cons digit_val_def Let_def)

lemma formatEther_example: "formatEther 1500000000000000000 = ''1.5''"
  by (simp add: formatEther_def format_unsigned_def decimals_def digits_of_nat.simps
      digit_char_def char_of_def bit_Suc_0_iff strip_trailing_zeros_def Let_def)

text \<open>
  C4: a decimal string with at most 18 fractional digits converts to an integer number
  of base units, exactly its value times \<open>10^18\<close>, and the decimal string written back
  from that integer has the value of the original string; conversely, the string written
  for any integer converts back to that integer. \<open>1.5\<close> maps to \<open>1500000000000000000\<close>
  and back to \<open>1.5\<close>.
\<close>

theorem amount_round_trip:
  "(is_decimal s \<and> fraction_digits s \<le> 18 \<longrightarrow>
      (\<exists>w. parseEther s = Inr w
           \<and> (of_int w :: rat) = decimal_value s * 10 ^ 18
           \<and> decimal_value (formatEther w) = decimal_value s))
   \<and> parseEther (formatEther wei) = Inr wei"
proof -
  have "\<exists>w. parseEther s = Inr w
           \<and> (of_int w :: rat) = decimal_value s * 10 ^ 18
           \<and> decimal_value (formatEther w) = decimal_value s"
    if dec: "is_decimal s" and len: "fraction_digits s \<le> 18"
  proof -
    obtain w where w: "parseEther s = Inr w" "(of_int w :: rat) = decimal_value s * 10 ^ 18"
      using parseEther_exact [of s, unfolded decimals_def] dec len by blast
    have "decimal_value (formatEther w) = of_int w / 10 ^ 18"
      by (rule formatEther_value [of w, unfolded decimals_def])
    then have "decimal_value (formatEther w) = decimal_value s"
      using w(2) by simp
    then show ?thesis
      using w by blast
  qed
  then show ?thesis
    using parseEther_formatEther by blast
qed

theorem amount_round_trip_witness:
  "is_decimal ''1.5'' \<and> fraction_digits ''1.5'' \<le> 18
   \<and> parseEther ''1.5'' = Inr 1500000000000000000
   \<and> formatEther 1500000000000000000 = ''1.5''
   \<and> decimal_value (formatEther 1500000000000000000) = decimal_value ''1.5''
   \<and> parseEther (formatEther 1500000000000000000) = Inr 1500000000000000000"
proof -
  have dec: "is_decimal ''1.5''" "fraction_digits ''1.5'' \<le> 18"
    by (simp_all add: is_decimal_def is_unsigned_decimal_def is_negative_def is_digit_def
        not_dot_def fraction_digits_def)
  show ?thesis
    using amount_round_trip [of "''1.5''" 1500000000000000000] dec
    by (simp add: parseEther_examples formatEther_example)
qed

section \<open>Transaction submission and the propagation of errors\<close>

lemma requests_emit [simp]:
  "requests (emit e s) = requests s @ (if is_request e then [e] else [])"
  by (simp add: requests_def)

lemma requests_set_isAuthenticated [simp]:
  "requests (set_isAuthenticated b s) = requests s"
  by (simp add: requests_def)

lemma requests_deliver [simp]: "requests (deliver evs s) = requests s"
  by (simp add: requests_def)

lemma requests_since:
  assumes "trace s' = trace s @ ys" and "requests s' = requests s @ rs"
  shows "filter is_request (since s s') = rs"
  using assms by (simp add: requests_def since_def)

lemma requestLogin_requests:
  "\<exists>rs. requests (snd (requestLogin w s)) = requests s @ rs \<and> distinct rs"
  by (simp add: requestLogin_def login_signed_def login_verified_def login_steps Let_def
      getBackendUrl_def split: sum.splits option.splits)

lemma requestLogin_no_retry:
  "distinct (filter is_request (since s (snd (requestLogin w s))))"
proof -
  obtain ys where "trace (snd (requestLogin w s)) = trace s @ IsAuthenticatedNext False # ys"
    using requestLogin_first by blast
  moreover obtain rs where "requests (snd (requestLogin w s)) = requests s @ rs" "distinct rs"
    using requestLogin_requests by blast
  ultimately show ?thesis
    using requests_since by blast
qed


lemma requestSendTransaction_extends:
  "\<exists>ys. trace (snd (requestSendTransaction w isProd toAdress amountETH s)) = trace s @ ys"
  by (simp add: requestSendTransaction_def login_steps Let_def split: sum.splits option.splits)

lemma requestSendTransaction_requests:
  "\<exists>rs. requests (snd (requestSendTransaction w isProd toAdress amountETH s)) = requests s @ rs
     \<and> distinct rs"
  by (simp add: requestSendTransaction_def login_steps Let_def split: sum.splits option.splits)

lemma requestSendTransaction_no_retry:
  "distinct (filter is_request
     (since s (snd (requestSendTransaction w isProd toAdress amountETH s))))"
proof -
  let ?s' = "snd (requestSendTransaction w isProd toAdress amountETH s)"
  obtain ys where "trace ?s' = trace s @ ys"
    using requestSendTransaction_extends by blast
  moreover obtain rs where "requests ?s' = requests s @ rs" "distinct rs"
    using requestSendTransaction_requests by blast
  ultimately show ?thesis
    using requests_since by blast
qed

lemma requestSendTransaction_success:
  "\<not> isl (fst (requestSendTransaction w isProd toAdress amountETH s))
     \<Longrightarrow> provider s \<and> requestAccounts_reply w = Inr ()
         \<and> (\<exists>tx. sendTransaction_reply w = Inr (Some tx)
                \<and> fst (requestSendTransaction w isProd toAdress amountETH s) = Inr (hash tx))"
  by (auto simp: requestSendTransaction_def login_steps Let_def
      split: sum.splits option.splits if_splits)

lemma login_propagates_requestAccounts:
  "provider s \<Longrightarrow> requestAccounts_reply w = Inl e \<Longrightarrow> fst (requestLogin w s) = Inl e"
  by (simp add: requestLogin_def login_steps)

lemma login_propagates_generateNonce:
  "provider s \<longrightarrow> requestAccounts_reply w = Inr () \<Longrightarrow> generateNonce_reply w = Inl e
     \<Longrightarrow> fst (requestLogin w s) = Inl e"
  by (cases "provider s") (simp_all add: requestLogin_def login_steps)

lemma login_propagates_signMessage:
  "provider s \<Longrightarrow> requestAccounts_reply w = Inr ()
     \<Longrightarrow> generateNonce_reply w = Inr (Some res) \<Longrightarrow> nonce res = Some n
     \<Longrightarrow> signMessage_reply w = Inl e \<Longrightarrow> fst (requestLogin w s) = Inl e"
  by (simp add: requestLogin_def login_signed_def login_steps Let_def)

lemma login_propagates_getAddress:
  "provider s \<Longrightarrow> requestAccounts_reply w = Inr ()
     \<Longrightarrow> generateNonce_reply w = Inr (Some res) \<Longrightarrow> nonce res = Some n
     \<Longrightarrow> signMessage_reply w = Inr (Some x) \<Longrightarrow> getAddress_reply w = Inl e
     \<Longrightarrow> fst (requestLogin w s) = Inl e"
  by (simp add: requestLogin_def login_signed_def login_steps Let_def)

lemma login_propagates_verifyMessage:
  "provider s \<Longrightarrow> requestAccounts_reply w = Inr ()
     \<Longrightarrow> generateNonce_reply w = Inr (Some res) \<Longrightarrow> nonce res = Some n
     \<Longrightarrow> signMessage_reply w = Inr (Some x) \<Longrightarrow> getAddress_reply w = Inr (Some a)
     \<Longrightarrow> verifyMessage_reply w = Inl e \<Longrightarrow> fst (requestLogin w s) = Inl e"
  by (simp add: requestLogin_def login_signed_def login_steps Let_def)

lemma send_propagates_requestAccounts:
  "isProd = (map_option chainId (network s) = Some 1) \<Longrightarrow> provider s
     \<Longrightarrow> requestAccounts_reply w = Inl e
     \<Longrightarrow> fst (requestSendTransaction w isProd toAdress amountETH s) = Inl e"
  by (auto simp: requestSendTransaction_def login_steps Let_def)

lemma send_propagates_sendTransaction:
  "isProd = (map_option chainId (network s) = Some 1) \<Longrightarrow> provider s
     \<Longrightarrow> requestAccounts_reply w = Inr () \<Longrightarrow> parseEther amountETH = Inr wei
     \<Longrightarrow> sendTransaction_reply w = Inl e
     \<Longrightarrow> fst (requestSendTransaction w isProd toAdress amountETH s) = Inl e"
  by (auto simp: requestSendTransaction_def login_steps Let_def)

lemma sendTransaction_never_fails:
  "\<not> isl (fst (sendTransaction eth reply isProd fromAddress toAdress amountETH))"
  by (simp add: sendTransaction_def split: prod.splits sum.splits)

lemma sendTransaction_swallows:
  "fst (sendTransaction eth (Inl e) isProd fromAddress toAdress amountETH) = Inr None"
  by (simp add: sendTransaction_def sendTransaction_try_def Let_def split: option.splits)

lemma signMessage_never_fails:
  "\<not> isl (fst (signMessage eth accounts_reply sign_reply address_reply message))"
  by (simp add: signMessage_def split: prod.splits sum.splits)

lemma signMessage_swallows:
  "accounts_reply = Inl e \<or> sign_reply = Inl e \<or> address_reply = Inl e
     \<Longrightarrow> fst (signMessage eth accounts_reply sign_reply address_reply message) = Inr None"
  by (auto simp: signMessage_def signMessage_try_def split: option.splits sum.splits)


lemma sendTransaction_outcome:
  "sendTransaction eth reply isProd fromAddress toAdress amount =
     (case eth of
        None \<Rightarrow> (Inr None, [Log (''Unable to send transaction: '' @ render TypeError)])
      | Some wallet \<Rightarrow>
          (if isProd \<and> networkVersion wallet \<noteq> Some 1
           then (Inr None, [Log ''Unable to send transaction: Network should be Ethereum mainnet''])
           else if \<not> isProd \<and> networkVersion wallet = Some 1
           then (Inr None, [Log ''Unable to send transaction: Network should be a testnet''])
           else (case reply of
                   Inl err \<Rightarrow>
                     (Inr None,
                      [EthereumRequest ''eth_sendTransaction''
                         [\<lparr>tx_nonce = ''0x00'', tx_to = toAdress, tx_from = fromAddress,
                           tx_value = js_times amount Math_pow_10_18,
                           tx_data = ''0x7f7465737432000000000000000000000000000000000000000000000000000000600057'',
                           tx_chainId = ''0x3''\<rparr>],
                       Log (''Unable to send transaction: '' @ render err)])
                 | Inr txHash \<Rightarrow>
                     (Inr (Some txHash),
                      [EthereumRequest ''eth_sendTransaction''
                         [\<lparr>tx_nonce = ''0x00'', tx_to = toAdress, tx_from = fromAddress,
                           tx_value = js_times amount Math_pow_10_18,
                           tx_data = ''0x7f7465737432000000000000000000000000000000000000000000000000000000600057'',
                           tx_chainId = ''0x3''\<rparr>]]))))"
  by (simp add: sendTransaction_def sendTransaction_try_def Let_def
      split: option.splits sum.splits)

lemma signMessage_outcome:
  "signMessage eth accounts_reply sign_reply address_reply message =
     (case eth of
        None \<Rightarrow> (Inr None, [Log (''Unable to sign: '' @ render TypeError)])
      | Some wallet \<Rightarrow>
          (case accounts_reply of
             Inl err \<Rightarrow>
               (Inr None,
                [EthereumRequest ''eth_requestAccounts'' [], Log (''Unable to sign: '' @ render err)])
           | Inr u \<Rightarrow>
               (case sign_reply of
                  Inl err \<Rightarrow>
                    (Inr None,
                     [EthereumRequest ''eth_requestAccounts'' [], Web3SignMessage message,
                      Log (''Unable to sign: '' @ render err)])
                | Inr sg \<Rightarrow>
                    (case address_reply of
                       Inl err \<Rightarrow>
                         (Inr None,
                          [EthereumRequest ''eth_requestAccounts'' [], Web3SignMessage message,
                           Web3GetAddress, Log (''Unable to sign: '' @ render err)])
                     | Inr addr \<Rightarrow>
                         (Inr (Some (sg, addr)),
                          [EthereumRequest ''eth_requestAccounts'' [], Web3SignMessage message,
                           Web3GetAddress])))))"
  by (simp add: signMessage_def signMessage_try_def split: option.splits sum.splits)

text \<open>
  C2, as the code has it: \<open>requestSendTransaction\<close> rejects with an error naming the
  mainnet when production is intended on a chain other than 1 (or on no known chain), and
  with an error naming a testnet when production is not intended on chain 1; the service
  is left as it was, so no request has gone to the wallet. The older \<open>sendTransaction\<close>
  raises the same two messages but catches them itself: it logs the message and resolves
  with \<open>undefined\<close>, again without a request to the wallet.
\<close>

theorem wrong_network_is_refused:
  "(isProd \<and> map_option chainId (network s) \<noteq> Some 1 \<longrightarrow>
      requestSendTransaction w isProd toAdress amountETH s
        = (Inl (Error ''Network should be Ethereum mainnet''), s)
      \<and> filter is_wallet_call
          (since s (snd (requestSendTransaction w isProd toAdress amountETH s))) = [])
   \<and> (\<not> isProd \<and> map_option chainId (network s) = Some 1 \<longrightarrow>
      requestSendTransaction w isProd toAdress amountETH s
        = (Inl (Error ''Network should be a testnet''), s)
      \<and> filter is_wallet_call
          (since s (snd (requestSendTransaction w isProd toAdress amountETH s))) = [])
   \<and> (isProd \<and> networkVersion wallet \<noteq> Some 1 \<longrightarrow>
      sendTransaction (Some wallet) reply isProd fromAddress toAdress amount
        = (Inr None, [Log ''Unable to send transaction: Network should be Ethereum mainnet'']))
   \<and> (\<not> isProd \<and> networkVersion wallet = Some 1 \<longrightarrow>
      sendTransaction (Some wallet) reply isProd fromAddress toAdress amount
        = (Inr None, [Log ''Unable to send transaction: Network should be a testnet'']))"
  by (auto simp: requestSendTransaction_def sendTransaction_def sendTransaction_try_def
      since_def Let_def)

theorem wrong_network_is_refused_witness:
  "requestSendTransaction world_valid True ''0xB2'' ''1.5'' connected
     = (Inl (Error ''Network should be Ethereum mainnet''), connected)
   \<and> requestSendTransaction world_valid False ''0xB2'' ''1.5''
        (onChainChanged_then \<lparr>name = ''homestead'', chainId = 1\<rparr> connected)
     = (Inl (Error ''Network should be a testnet''),
        onChainChanged_then \<lparr>name = ''homestead'', chainId = 1\<rparr> connected)
   \<and> sendTransaction (Some testnet_wallet) (Inr ''0xhash'') True ''0xA1'' ''0xB2''
        (Finite False 3 (- 1))
     = (Inr None, [Log ''Unable to send transaction: Network should be Ethereum mainnet''])
   \<and> sendTransaction (Some (testnet_wallet\<lparr>networkVersion := Some 1\<rparr>)) (Inr ''0xhash'') False
        ''0xA1'' ''0xB2'' (Finite False 3 (- 1))
     = (Inr None, [Log ''Unable to send transaction: Network should be a testnet''])"
  using wrong_network_is_refused [of True connected world_valid "''0xB2''" "''1.5''"
      testnet_wallet "Inr ''0xhash''" "''0xA1''" "Finite False 3 (- 1)"]
    wrong_network_is_refused [of False
      "onChainChanged_then \<lparr>name = ''homestead'', chainId = 1\<rparr> connected" world_valid
      "''0xB2''" "''1.5''" "testnet_wallet\<lparr>networkVersion := Some 1\<rparr>" "Inr ''0xhash''"
      "''0xA1''" "Finite False 3 (- 1)"]
  by (simp add: connected_fields onChainChanged_then_fields testnet_wallet_def)

text \<open>
  Against C2 as stated: on a test network with production intended, the older
  \<open>sendTransaction\<close> does not fail; it resolves with \<open>undefined\<close>.
\<close>

theorem sendTransaction_wrong_network_counterexample:
  "sendTransaction (Some testnet_wallet) (Inr ''0xhash'') True ''0xA1'' ''0xB2''
     (Finite False 3 (- 1))
     = (Inr None, [Log ''Unable to send transaction: Network should be Ethereum mainnet''])"
  by (simp add: sendTransaction_def sendTransaction_try_def testnet_wallet_def)

text \<open>
  C9, as the code has it. In the reactive service an error of the wallet provider or of the
  backend at any stage of \<open>requestLogin\<close> or \<open>requestSendTransaction\<close> is the error the
  operation rejects with; an operation that resolves has seen no error; and no request
  is sent twice. The older \<open>sendTransaction\<close> and \<open>signMessage\<close> never reject: whatever
  error arises (no wallet, the wrong network, a rejection by the wallet at any request),
  they catch it, write it to the console after \<open>Unable to send transaction: \<close> or
  \<open>Unable to sign: \<close> as their last effect, and resolve with \<open>undefined\<close> or \<open>null\<close>;
  no request is repeated.
\<close>

theorem errors_propagate_or_are_caught:
  "(provider s \<and> requestAccounts_reply w = Inl e \<longrightarrow> fst (requestLogin w s) = Inl e)
   \<and> ((provider s \<longrightarrow> requestAccounts_reply w = Inr ()) \<and> generateNonce_reply w = Inl e
        \<longrightarrow> fst (requestLogin w s) = Inl e)
   \<and> (provider s \<and> requestAccounts_reply w = Inr ()
        \<and> generateNonce_reply w = Inr (Some res) \<and> nonce res = Some n
        \<and> signMessage_reply w = Inl e
        \<longrightarrow> fst (requestLogin w s) = Inl e)
   \<and> (provider s \<and> requestAccounts_reply w = Inr ()
        \<and> generateNonce_reply w = Inr (Some res) \<and> nonce res = Some n
        \<and> signMessage_reply w = Inr (Some x) \<and> getAddress_reply w = Inl e
        \<longrightarrow> fst (requestLogin w s) = Inl e)
   \<and> (provider s \<and> requestAccounts_reply w = Inr ()
        \<and> generateNonce_reply w = Inr (Some res) \<and> nonce res = Some n
        \<and> signMessage_reply w = Inr (Some x) \<and> getAddress_reply w = Inr (Some a)
        \<and> verifyMessage_reply w = Inl e
        \<longrightarrow> fst (requestLogin w s) = Inl e)
   \<and> (\<not> isl (fst (requestLogin w s)) \<longrightarrow>
        \<not> isl (requestAccounts_reply w) \<and> \<not> isl (generateNonce_reply w)
        \<and> \<not> isl (signMessage_reply w) \<and> \<not> isl (getAddress_reply w)
        \<and> \<not> isl (verifyMessage_reply w))
   \<and> distinct (filter is_request (since s (snd (requestLogin w s))))
   \<and> (isProd = (map_option chainId (network s) = Some 1) \<and> provider s
        \<and> requestAccounts_reply w = Inl e
        \<longrightarrow> fst (requestSendTransaction w isProd toAdress amountETH s) = Inl e)
   \<and> (isProd = (map_option chainId (network s) = Some 1) \<and> provider s
        \<and> requestAccounts_reply w = Inr () \<and> parseEther amountETH = Inr wei
        \<and> sendTransaction_reply w = Inl e
        \<longrightarrow> fst (requestSendTransaction w isProd toAdress amountETH s) = Inl e)
   \<and> (\<not> isl (fst (requestSendTransaction w isProd toAdress amountETH s)) \<longrightarrow>
        \<not> isl (requestAccounts_reply w) \<and> \<not> isl (sendTransaction_reply w))
   \<and> distinct (filter is_request
        (since s (snd (requestSendTransaction w isProd toAdress amountETH s))))
   \<and> \<not> isl (fst (sendTransaction eth reply isProd fromAddress toAdress amount))
   \<and> fst (sendTransaction eth (Inl e) isProd fromAddress toAdress amount) = Inr None
   \<and> \<not> isl (fst (signMessage eth accounts_reply sign_reply address_reply message))
   \<and> (accounts_reply = Inl e \<or> sign_reply = Inl e \<or> address_reply = Inl e \<longrightarrow>
        fst (signMessage eth accounts_reply sign_reply address_reply message) = Inr None)
   \<and> sendTransaction eth reply isProd fromAddress toAdress amount =
       (case eth of
          None \<Rightarrow> (Inr None, [Log (''Unable to send transaction: '' @ render TypeError)])
        | Some wallet \<Rightarrow>
            (if isProd \<and> networkVersion wallet \<noteq> Some 1
             then (Inr None,
                   [Log ''Unable to send transaction: Network should be Ethereum mainnet''])
             else if \<not> isProd \<and> networkVersion wallet = Some 1
             then (Inr None, [Log ''Unable to send transaction: Network should be a testnet''])
             else (case reply of
                     Inl err \<Rightarrow>
                       (Inr None,
                        [EthereumRequest ''eth_sendTransaction''
                           [\<lparr>tx_nonce = ''0x00'', tx_to = toAdress, tx_from = fromAddress,
                             tx_value = js_times amount Math_pow_10_18,
                             tx_data = ''0x7f7465737432000000000000000000000000000000000000000000000000000000600057'',
                             tx_chainId = ''0x3''\<rparr>],
                         Log (''Unable to send transaction: '' @ render err)])
                   | Inr txHash \<Rightarrow>
                       (Inr (Some txHash),
                        [EthereumRequest ''eth_sendTransaction''
                           [\<lparr>tx_nonce = ''0x00'', tx_to = toAdress, tx_from = fromAddress,
                             tx_value = js_times amount Math_pow_10_18,
                             tx_data = ''0x7f7465737432000000000000000000000000000000000000000000000000000000600057'',
                             tx_chainId = ''0x3''\<rparr>]]))))
   \<and> signMessage eth accounts_reply sign_reply address_reply message =
       (case eth of
          None \<Rightarrow> (Inr None, [Log (''Unable to sign: '' @ render TypeError)])
        | Some wallet \<Rightarrow>
            (case accounts_reply of
               Inl err \<Rightarrow>
                 (Inr None,
                  [EthereumRequest ''eth_requestAccounts'' [],
                   Log (''Unable to sign: '' @ render err)])
             | Inr u \<Rightarrow>
                 (case sign_reply of
                    Inl err \<Rightarrow>
                      (Inr None,
                       [EthereumRequest ''eth_requestAccounts'' [], Web3SignMessage message,
                        Log (''Unable to sign: '' @ render err)])
                  | Inr sg \<Rightarrow>
                      (case address_reply of
                         Inl err \<Rightarrow>
                           (Inr None,
                            [EthereumRequest ''eth_requestAccounts'' [], Web3SignMessage message,
                             Web3GetAddress, Log (''Unable to sign: '' @ render err)])
                       | Inr addr \<Rightarrow>
                           (Inr (Some (sg, addr)),
                            [EthereumRequest ''eth_requestAccounts'' [], Web3SignMessage message,
                             Web3GetAddress])))))"
proof -
  have login_ok: "\<not> isl (fst (requestLogin w s)) \<longrightarrow>
        \<not> isl (requestAccounts_reply w) \<and> \<not> isl (generateNonce_reply w)
        \<and> \<not> isl (signMessage_reply w) \<and> \<not> isl (getAddress_reply w)
        \<and> \<not> isl (verifyMessage_reply w)"
    using requestLogin_success [of w s] by auto
  have send_ok: "\<not> isl (fst (requestSendTransaction w isProd toAdress amountETH s)) \<longrightarrow>
        \<not> isl (requestAccounts_reply w) \<and> \<not> isl (sendTransaction_reply w)"
    using requestSendTransaction_success [of w isProd toAdress amountETH s] by auto
  show ?thesis
    using login_ok send_ok
      login_propagates_requestAccounts [of s w e]
      login_propagates_generateNonce [of s w e]
      login_propagates_signMessage [of s w res n e]
      login_propagates_getAddress [of s w res n x e]
      login_propagates_verifyMessage [of s w res n x a e]
      requestLogin_no_retry [of s w]
      send_propagates_requestAccounts [of isProd s w e toAdress amountETH]
      send_propagates_sendTransaction [of isProd s w amountETH wei e toAdress]
      requestSendTransaction_no_retry [of s w isProd toAdress amountETH]
      sendTransaction_never_fails [of eth reply isProd fromAddress toAdress amount]
      sendTransaction_swallows [of eth e isProd fromAddress toAdress amount]
      signMessage_never_fails [of eth accounts_reply sign_reply address_reply message]
      signMessage_swallows [of accounts_reply e sign_reply address_reply eth message]
      sendTransaction_outcome [of eth reply isProd fromAddress toAdress amount]
      signMessage_outcome [of eth accounts_reply sign_reply address_reply message]
    by blast
qed

theorem errors_propagate_or_are_caught_witness:
  "fst (requestLogin world_declined connected) = Inl (Rejected ''User denied message signature'')
   \<and> fst (requestSendTransaction world_refused False ''0xB2'' ''1.5'' connected)
       = Inl (Rejected ''User denied transaction signature'')
   \<and> sendTransaction (Some testnet_wallet)
            (Inl (Rejected ''User denied transaction signature'')) False ''0xA1'' ''0xB2''
            (Finite False 3 (- 1))
       = (Inr None,
          [EthereumRequest ''eth_sendTransaction''
             [\<lparr>tx_nonce = ''0x00'', tx_to = ''0xB2'', tx_from = ''0xA1'',
               tx_value = Finite False 11444091796875 17,
               tx_data = ''0x7f7465737432000000000000000000000000000000000000000000000000000000600057'',
               tx_chainId = ''0x3''\<rparr>],
           Log ''Unable to send transaction: User denied transaction signature''])
   \<and> signMessage (Some testnet_wallet) (Inr ())
          (Inl (Rejected ''User denied message signature'')) (Inr ''0xA1'') ''abc123''
       = (Inr None,
          [EthereumRequest ''eth_requestAccounts'' [], Web3SignMessage ''abc123'',
           Log ''Unable to sign: User denied message signature''])"
proof -
  have amount: "js_times (Finite False 3 (- 1)) Math_pow_10_18 = Finite False 11444091796875 17"
    by (simp add: Math_pow_10_18_def round_binary64_def Let_def)
  show ?thesis
    using errors_propagate_or_are_caught
      [where s = connected and w = world_declined
        and e = "Rejected ''User denied message signature''"
        and res = "\<lparr>nonce = Some ''abc123''\<rparr>" and n = "''abc123''"]
    errors_propagate_or_are_caught
      [where s = connected and w = world_refused
        and e = "Rejected ''User denied transaction signature''"
        and isProd = False and toAdress = "''0xB2''" and amountETH = "''1.5''"
        and wei = 1500000000000000000 and eth = "Some testnet_wallet"
        and reply = "Inl (Rejected ''User denied transaction signature'')"
        and fromAddress = "''0xA1''" and amount = "Finite False 3 (- 1)"
        and accounts_reply = "Inr ()"
        and sign_reply = "Inl (Rejected ''User denied message signature'')"
        and address_reply = "Inr ''0xA1''" and message = "''abc123''"]
    by (simp add: connected_fields world_declined_def world_refused_def world_valid_def
        parseEther_examples testnet_wallet_def amount)
qed

text \<open>
  Against C9 as stated: the user declines in the wallet, and the older \<open>sendTransaction\<close>
  and \<open>signMessage\<close> resolve with \<open>undefined\<close> and \<open>null\<close> instead of failing.
\<close>

theorem swallowed_errors_counterexample:
  "fst (sendTransaction (Some testnet_wallet) (Inl (Rejected ''User denied transaction signature''))
          False ''0xA1'' ''0xB2'' (Finite False 3 (- 1))) = Inr None
   \<and> fst (signMessage (Some testnet_wallet) (Inr ())
            (Inl (Rejected ''User denied message signature'')) (Inr ''0xA1'') ''abc123'')
       = Inr None"
  by (simp add: sendTransaction_def sendTransaction_try_def signMessage_def signMessage_try_def
      testnet_wallet_def Let_def)

section \<open>The amount sent by the non-reactive variant\<close>

text \<open>
  C3 fails in the older \<open>sendTransaction\<close>, which multiplies the amount by \<open>10^18\<close> in
  binary floating point. For the amount \<open>2363\<close>, a number that binary64 holds exactly,
  the value sent is \<open>2363000000000000262144\<close> wei, not \<open>2363 * 10^18\<close>; for the number
  nearest to \<open>1.1\<close> it is \<open>1100000000000000128\<close> wei. The conversion of the reactive
  service gives \<open>2363 * 10^18\<close> and \<open>11 * 10^17\<close> for the strings \<open>2363\<close> and \<open>1.1\<close>.
\<close>

theorem sendTransaction_amount_inexact:
  "snd (sendTransaction (Some testnet_wallet) (Inr ''0xhash'') False ''0xA1'' ''0xB2''
          (Finite False 2363 0))
     = [EthereumRequest ''eth_sendTransaction''
          [\<lparr>tx_nonce = ''0x00'', tx_to = ''0xB2'', tx_from = ''0xA1'',
            tx_value = Finite False 4507064819335938 19,
            tx_data = ''0x7f7465737432000000000000000000000000000000000000000000000000000000600057'',
            tx_chainId = ''0x3''\<rparr>]]
   \<and> number_value (Finite False 2363 0) = Some 2363
   \<and> number_value (Finite False 4507064819335938 19) = Some 2363000000000000262144
   \<and> parseEther ''2363'' = Inr 2363000000000000000000
   \<and> js_times (Finite False 2476979795053773 (- 51)) Math_pow_10_18
       = Finite False 8593750000000001 7
   \<and> number_value (Finite False 8593750000000001 7) = Some 1100000000000000128
   \<and> parseEther ''1.1'' = Inr 1100000000000000000"
  by (simp add: sendTransaction_def sendTransaction_try_def testnet_wallet_def Let_def
      Math_pow_10_18_def round_binary64_def number_value_def parseEther_examples)

end
